theory Spec2Isabelle
  imports Main
begin

section \<open>Asynchronous effects\<close>

text \<open>
  The program is a command-line front end: every operation of interest is a call into
  code the configuration supplies (the database callbacks, the hooks, a migration's
  \<open>up\<close> and \<open>down\<close>) or into the Umzug engine. Such a call is modelled as a function
  of an abstract world \<open>'w\<close> that returns how the call ended together with the world it
  leaves behind. A thrown or rejected value is an \<open>error\<close>, identified by its message.

  A value of type \<open>('w, 'a) effect\<close> is a call whose result is a promise (or that runs
  inside an \<^verbatim>\<open>async\<close> function, where a synchronous throw becomes a rejection too):
  \<open>Inl e\<close> is a rejection with \<open>e\<close>, \<open>Inr v\<close> is fulfilment with \<open>v\<close>.
\<close>

datatype error = Error string

type_synonym ('w, 'a) effect = "'w \<Rightarrow> (error + 'a) \<times> 'w"

text \<open>
  Calls are observed through a ghost trace: the state of a run is the world together with
  the list of calls made so far, oldest first. \<open>call ev f\<close> performs the external call
  \<open>f\<close> on the current world and records \<open>ev\<close>.
\<close>

record ('w, 'ev) state =
  world :: 'w
  trace :: "'ev list"

definition call :: "'ev \<Rightarrow> ('w, 'a) effect \<Rightarrow> (('w, 'ev) state, 'a) effect" where
  "call ev f s =
     (case f (world s) of (r, w') \<Rightarrow> (r, \<lparr>world = w', trace = trace s @ [ev]\<rparr>))"

text \<open>\<^verbatim>\<open>await m; k\<close> inside an \<^verbatim>\<open>async\<close> function: a rejection of \<open>m\<close> ends the function.\<close>

definition await :: "('s, 'a) effect \<Rightarrow> ('a \<Rightarrow> ('s, 'b) effect) \<Rightarrow> ('s, 'b) effect" where
  "await m k s = (case m s of (Inl e, s') \<Rightarrow> (Inl e, s') | (Inr a, s') \<Rightarrow> k a s')"

text \<open>\<^verbatim>\<open>f?.()\<close>: an absent function is not called and the expression is \<^verbatim>\<open>undefined\<close>.\<close>

definition optional_call :: "'ev \<Rightarrow> ('w, unit) effect option \<Rightarrow> (('w, 'ev) state, unit) effect" where
  "optional_call ev f = (case f of None \<Rightarrow> (\<lambda>s. (Inr (), s)) | Some g \<Rightarrow> call ev g)"

section \<open>wrapMigration\<close>

text \<open>
  Umzug's \<^verbatim>\<open>RunnableMigration\<close>: a name, an optional path, \<^verbatim>\<open>up\<close> and an optional
  \<^verbatim>\<open>down\<close>, both taking the migration parameters \<open>'p\<close> and returning a promise whose
  value is ignored.
\<close>

record ('p, 'w) RunnableMigration =
  name :: string
  path :: "string option"
  up :: "'p \<Rightarrow> ('w, unit) effect"
  down :: "('p \<Rightarrow> ('w, unit) effect) option"

record 'w hooks =
  runBefore :: "('w, unit) effect option"
  runAfter :: "('w, unit) effect option"

datatype step = RunBefore | MigrationUp | MigrationDown | RunAfter

text \<open>
  The body shared by the wrapped \<^verbatim>\<open>up\<close> and \<^verbatim>\<open>down\<close>:
  \<^verbatim>\<open>await hooks.runBefore?.(); await migration.up(params); await hooks.runAfter?.();\<close>
\<close>

definition sandwich ::
  "'w hooks \<Rightarrow> step \<Rightarrow> ('w, unit) effect \<Rightarrow> (('w, step) state, unit) effect" where
  "sandwich h ev body =
     await (optional_call RunBefore (runBefore h))
       (\<lambda>_. await (call ev body) (\<lambda>_. optional_call RunAfter (runAfter h)))"

text \<open>
  The object literal spreads \<^verbatim>\<open>migration\<close>, replaces \<^verbatim>\<open>up\<close>, and adds a \<^verbatim>\<open>down\<close>
  only under \<^verbatim>\<open>migration.down ? ... : {}\<close>.
\<close>

definition wrapMigration ::
  "'w hooks \<Rightarrow> ('p, 'w) RunnableMigration \<Rightarrow> ('p, ('w, step) state) RunnableMigration" where
  "wrapMigration h migration =
     \<lparr>name = name migration,
      path = path migration,
      up = (\<lambda>params. sandwich h MigrationUp (up migration params)),
      down = (case down migration of
                None \<Rightarrow> None
              | Some d \<Rightarrow> Some (\<lambda>params. sandwich h MigrationDown (d params)))\<rparr>"

section \<open>DatabaseConfig\<close>

text \<open>
  \<^verbatim>\<open>createContext\<close> is typed to return a context or a promise of one, and
  \<^verbatim>\<open>createStorage\<close> to return the storage itself, so a call of either can end in three
  ways: it throws while it runs, it returns a promise that rejects, or it yields a value
  (directly or through a fulfilled promise). The same three ways are open to
  \<^verbatim>\<open>dropDbAndDisconnect\<close> and \<^verbatim>\<open>prepareDbAndDisconnect\<close>: they are typed to return a
  promise, but a function that is not \<^verbatim>\<open>async\<close> can throw before it returns one, and
  the handlers call them in places where that differs from a rejection.
  \<^verbatim>\<open>destroyContext\<close> and \<^verbatim>\<open>destroyStorage\<close> are only called under \<^verbatim>\<open>await\<close> inside
  an \<^verbatim>\<open>async\<close> function, where a throw and a rejection are the same.
\<close>

datatype 'a outcome = Throws error | Rejects error | Fulfils 'a

type_synonym ('w, 'a) invocation = "'w \<Rightarrow> 'a outcome \<times> 'w"

text \<open>
  An optional member of an object: the key can be missing, present with the value
  \<^verbatim>\<open>undefined\<close>, or present with a function.
\<close>

datatype 'a member = Absent | Undefined | Defined 'a

text \<open>
  The environment handed to a callback is \<open>None\<close> where the caller passes no argument.
  \<^verbatim>\<open>resolveScript\<close> is left out: only the discovery callback given to the engine uses it.
\<close>

record ('w, 'c, 't) DatabaseConfig =
  defaultScriptFormat :: string
  supportedScriptFormats :: "string list"
  supportedEnvironments :: "string list"
  defaultEnvironment :: "string option"
  scriptsDirectory :: string
  getTemplate :: "(string \<Rightarrow> string) option"
  prepareDbAndDisconnect :: "string option \<Rightarrow> ('w, unit) invocation"
  dropDbAndDisconnect :: "string option \<Rightarrow> ('w, unit) invocation"
  createContext :: "string option \<Rightarrow> ('w, 'c) invocation"
  createStorage :: "string option \<Rightarrow> ('w, 't) invocation"
  destroyContext :: "'c \<Rightarrow> ('w, unit) effect"
  destroyStorage :: "('t \<Rightarrow> ('w, unit) effect) member"

section \<open>The command line: shared parts\<close>

text \<open>
  The options of \<^verbatim>\<open>migrator.up\<close> the handler builds, and the calls the trace records,
  each tagged with the key of the database it was made for.
\<close>

datatype up_options = NoOptions | Step nat | Migrations "string option list" | To "string option"

datatype operation =
    CreateContext | CreateStorage | MigratorUp up_options | DestroyContext | DestroyStorage
  | DropDb | PrepareDb | MigratorCreate string

datatype event = Call string operation

fun ev_db :: "event \<Rightarrow> string" where
  "ev_db (Call key _) = key"

fun ev_op :: "event \<Rightarrow> operation" where
  "ev_op (Call _ operation) = operation"

text \<open>
  The Umzug engine is outside the repository. \<open>engine key env c t opts\<close> stands for
  \<^verbatim>\<open>new Umzug({migrations, context, storage, logger}).up(opts)\<close>: the discovery callback
  is a closure over the database (here its key) and the environment bound into
  \<^verbatim>\<open>shouldRun\<close>; \<open>c\<close> and \<open>t\<close> are the context and the storage.
\<close>

type_synonym ('w, 'c, 't) engine =
  "string \<Rightarrow> string option \<Rightarrow> 'c \<Rightarrow> 't \<Rightarrow> up_options \<Rightarrow> ('w, unit) effect"

definition resolved :: "('s, unit) effect" where
  "resolved s = (Inr (), s)"

text \<open>JavaScript truthiness of a \<^verbatim>\<open>string | undefined\<close>: the empty string is falsy.\<close>

definition truthy :: "string option \<Rightarrow> bool" where
  "truthy v = (case v of None \<Rightarrow> False | Some x \<Rightarrow> x \<noteq> [])"

text \<open>\<^verbatim>\<open>xs.includes(v)\<close> on an array of strings.\<close>

definition array_includes :: "string list \<Rightarrow> string option \<Rightarrow> bool" where
  "array_includes xs v = (case v of None \<Rightarrow> False | Some x \<Rightarrow> x \<in> set xs)"

fun join :: "string \<Rightarrow> string list \<Rightarrow> string" where
  "join sep [] = []"
| "join sep [x] = x"
| "join sep (x # y # ys) = x @ sep @ join sep (y # ys)"

text \<open>A value of type \<^verbatim>\<open>string | undefined\<close> inside a template literal.\<close>

definition interpolate :: "string option \<Rightarrow> string" where
  "interpolate v = (case v of None \<Rightarrow> ''undefined'' | Some x \<Rightarrow> x)"

text \<open>Reading a member of \<^verbatim>\<open>dbs[key]\<close> when the key is not configured.\<close>

definition TypeError :: error where
  "TypeError = Error ''TypeError: Cannot read properties of undefined''"

text \<open>
  \<open>dbs\<close> is the loaded configuration in the order of \<^verbatim>\<open>Object.entries\<close>;
  \<^verbatim>\<open>dbs[key]\<close> is \<open>map_of dbs key\<close>.
\<close>

definition getEnv ::
  "(string \<times> ('w, 'c, 't) DatabaseConfig) list \<Rightarrow> string \<Rightarrow> string option \<Rightarrow> error + string option" where
  "getEnv dbs db env =
     (case map_of dbs db of
        None \<Rightarrow> Inl TypeError
      | Some d \<Rightarrow> Inr (case env of Some e \<Rightarrow> Some e | None \<Rightarrow> defaultEnvironment d))"

definition makeInvalidEnvironmentError ::
  "('w, 'c, 't) DatabaseConfig \<Rightarrow> string option \<Rightarrow> error" where
  \<open>makeInvalidEnvironmentError db env =
     Error (''Environment "'' @ interpolate env @
            ''" is not a valid environment. Valid environments are: '' @
            join '', '' (supportedEnvironments db) @ ''.'')\<close>

subsection \<open>Promise combinators\<close>

text \<open>
  \<^verbatim>\<open>try { body } finally { fin }\<close>: the finally block runs however the body ended, and
  an exception leaving the finally block replaces the body's completion.
\<close>

definition try_finally :: "('s, 'a) effect \<Rightarrow> ('s, unit) effect \<Rightarrow> ('s, 'a) effect" where
  "try_finally body fin s =
     (case body s of
        (r, s1) \<Rightarrow> (case fin s1 of (Inl e, s2) \<Rightarrow> (Inl e, s2) | (Inr _, s2) \<Rightarrow> (r, s2)))"

text \<open>
  \<^verbatim>\<open>await f()\<close> inside an \<^verbatim>\<open>async\<close> function: a throw of the call and a rejection of
  its promise both reject the function.
\<close>

definition awaited :: "('w, 'a) invocation \<Rightarrow> ('w, 'a) effect" where
  "awaited f w =
     (case f w of
        (oc, w') \<Rightarrow>
          ((case oc of Throws e \<Rightarrow> Inl e | Rejects e \<Rightarrow> Inl e | Fulfils v \<Rightarrow> Inr v), w'))"

text \<open>
  \<^verbatim>\<open>f().catch(() => {})\<close>: the call is made first. If it throws while it runs there is no
  promise to attach the handler to and the exception propagates; otherwise the resulting
  promise is fulfilled whatever the promise of \<open>f\<close> does.
\<close>

definition caught :: "'ev \<Rightarrow> ('w, 'a) invocation \<Rightarrow> (('w, 'ev) state, unit) effect" where
  "caught ev f s =
     (case f (world s) of
        (oc, w') \<Rightarrow>
          ((case oc of Throws e \<Rightarrow> Inl e | _ \<Rightarrow> Inr ()),
           \<lparr>world = w', trace = trace s @ [ev]\<rparr>))"

text \<open>A call whose result is not awaited where it is made: the outcome is kept as it is.\<close>

definition invoke :: "'ev \<Rightarrow> ('w, 'a) invocation \<Rightarrow> ('w, 'ev) state \<Rightarrow> 'a outcome \<times> ('w, 'ev) state" where
  "invoke ev f s =
     (case f (world s) of (oc, w') \<Rightarrow> (oc, \<lparr>world = w', trace = trace s @ [ev]\<rparr>))"

text \<open>
  \<^verbatim>\<open>Promise.all\<close> of two already started calls: it rejects when one of them does. (When
  both reject, the rejection that happens first wins; the model takes the first in array
  order, and no theorem below depends on which.)
\<close>

definition promise_all2 :: "'a outcome \<Rightarrow> 'b outcome \<Rightarrow> error + 'a \<times> 'b" where
  "promise_all2 a b =
     (case a of
        Throws e \<Rightarrow> Inl e
      | Rejects e \<Rightarrow> Inl e
      | Fulfils x \<Rightarrow>
          (case b of Throws e \<Rightarrow> Inl e | Rejects e \<Rightarrow> Inl e | Fulfils y \<Rightarrow> Inr (x, y)))"

subsection \<open>The body of the apply handler for one database\<close>

text \<open>
  \<^verbatim>\<open>await Promise.all([db.createContext(env), db.createStorage(env)])\<close>. The array literal
  calls \<^verbatim>\<open>createContext\<close>, then \<^verbatim>\<open>createStorage\<close>, and only then are the two results
  awaited together; a call that throws while it runs ends the evaluation there.
\<close>

definition acquire ::
  "string \<Rightarrow> ('w, 'c, 't) DatabaseConfig \<Rightarrow> string option \<Rightarrow> (('w, event) state, 'c \<times> 't) effect" where
  "acquire key db env s =
     (case createContext db env (world s) of
        (c, w1) \<Rightarrow>
          (case c of
             Throws e \<Rightarrow> (Inl e, \<lparr>world = w1, trace = trace s @ [Call key CreateContext]\<rparr>)
           | _ \<Rightarrow>
               (case createStorage db env w1 of
                  (t, w2) \<Rightarrow>
                    (case t of
                       Throws e \<Rightarrow>
                         (Inl e, \<lparr>world = w2,
                                   trace = trace s @ [Call key CreateContext, Call key CreateStorage]\<rparr>)
                     | _ \<Rightarrow>
                         (promise_all2 c t,
                          \<lparr>world = w2,
                           trace = trace s @ [Call key CreateContext, Call key CreateStorage]\<rparr>)))))"

text \<open>The \<^verbatim>\<open>switch (target)\<close>; it has no default case.\<close>

definition up_options_of :: "string \<Rightarrow> string option \<Rightarrow> up_options option" where
  "up_options_of target nm =
     (if target = ''remaining'' then Some NoOptions
      else if target = ''next'' then Some (Step 1)
      else if target = ''only'' then Some (Migrations [nm])
      else if target = ''until'' then Some (To nm)
      else None)"

definition migrate ::
  "('w, 'c, 't) engine \<Rightarrow> string \<Rightarrow> string option \<Rightarrow> string option \<Rightarrow> string \<Rightarrow> 'c \<Rightarrow> 't \<Rightarrow>
   (('w, event) state, unit) effect" where
  "migrate engine target nm env key c t =
     (case up_options_of target nm of
        None \<Rightarrow> resolved
      | Some opts \<Rightarrow> call (Call key (MigratorUp opts)) (engine key env c t opts))"

text \<open>
  The finally block:
  \<^verbatim>\<open>await db.destroyContext(context);
  if ("destroyStorage" in db) { await db.destroyStorage?.(storage); }\<close>
\<close>

definition release ::
  "string \<Rightarrow> ('w, 'c, 't) DatabaseConfig \<Rightarrow> 'c \<Rightarrow> 't \<Rightarrow> (('w, event) state, unit) effect" where
  "release key db c t =
     await (call (Call key DestroyContext) (destroyContext db c))
       (\<lambda>_. case destroyStorage db of
               Defined f \<Rightarrow> call (Call key DestroyStorage) (f t)
             | _ \<Rightarrow> resolved)"

text \<open>
  \<open>cenv\<close> is what the handler passes to the two create callbacks, \<open>env\<close> what it binds into
  the discovery callback.
\<close>

definition apply_scripts_task ::
  "('w, 'c, 't) engine \<Rightarrow> string \<Rightarrow> string option \<Rightarrow> string option \<Rightarrow> string option \<Rightarrow>
   string \<Rightarrow> ('w, 'c, 't) DatabaseConfig \<Rightarrow> (('w, event) state, unit) effect" where
  "apply_scripts_task engine target nm cenv env key db =
     await (acquire key db cenv)
       (\<lambda>(c, t). try_finally (migrate engine target nm env key c t) (release key db c t))"

section \<open>The commands of cli.ts\<close>

text \<open>
  yargs validates the declared options first (a required option that is missing, a value
  outside \<^verbatim>\<open>choices\<close>), then runs the \<^verbatim>\<open>check\<close> callback, and calls the handler only
  when both pass; a check that throws, or returns false, fails the command. The texts of
  yargs' own messages are not part of the program and are abbreviated here.
\<close>

definition missing_argument :: "string \<Rightarrow> error" where
  "missing_argument k = Error (''Missing required argument: '' @ k)"

definition invalid_values :: "string \<Rightarrow> error" where
  "invalid_values k = Error (''Invalid values: Argument: '' @ k)"

definition command :: "error option \<Rightarrow> error + bool \<Rightarrow> ('s, unit) effect \<Rightarrow> ('s, unit) effect" where
  "command invalid checked handler s =
     (case invalid of
        Some e \<Rightarrow> (Inl e, s)
      | None \<Rightarrow>
          (case checked of
             Inl e \<Rightarrow> (Inl e, s)
           | Inr ok \<Rightarrow> if ok then handler s else (Inl (Error ''Argument check failed''), s)))"

text \<open>
  \<^verbatim>\<open>dbOpt\<close> (\<^verbatim>\<open>choices: Object.keys(dbs)\<close>) together with
  \<^verbatim>\<open>{ ...envOpt, demand: true }\<close>, as apply, clean, drop and create declare them.
\<close>

definition db_env_options ::
  "(string \<times> ('w, 'c, 't) DatabaseConfig) list \<Rightarrow> string \<Rightarrow> string option \<Rightarrow> error option" where
  "db_env_options dbs db env =
     (if env = None then Some (missing_argument ''env'')
      else if db \<notin> set (map fst dbs) then Some (invalid_values ''db'')
      else None)"

text \<open>
  The check that clean, drop and create share:
  \<^verbatim>\<open>if (!db.supportedEnvironments.includes(env)) throw makeInvalidEnvironmentError(db, env);\<close>
\<close>

definition environment_check ::
  "(string \<times> ('w, 'c, 't) DatabaseConfig) list \<Rightarrow> string \<Rightarrow> string option \<Rightarrow> error + bool" where
  "environment_check dbs db envOptValue =
     (case getEnv dbs db envOptValue of
        Inl e \<Rightarrow> Inl e
      | Inr env \<Rightarrow>
          (case map_of dbs db of
             None \<Rightarrow> Inl TypeError
           | Some d \<Rightarrow>
               if \<not> array_includes (supportedEnvironments d) env
               then Inl (makeInvalidEnvironmentError d env)
               else Inr True))"

subsection \<open>add\<close>

text \<open>
  Modelled from the spec: \<^verbatim>\<open>scriptTypes\<close> is imported from script-generator, which is not
  among the source files; the spec gives the two script types, migration and seed.
\<close>

definition scriptTypes :: "string list" where
  "scriptTypes = [''migration'', ''seed'']"

definition add_options ::
  "(string \<times> ('w, 'c, 't) DatabaseConfig) list \<Rightarrow> string \<Rightarrow> string \<Rightarrow> string option \<Rightarrow> error option" where
  "add_options dbs db type format =
     (if db \<notin> set (map fst dbs) then Some (invalid_values ''db'')
      else if type \<notin> set scriptTypes then Some (invalid_values ''type'')
      else if (case format of
                 None \<Rightarrow> False
               | Some f \<Rightarrow> f \<notin> set (concat (map (\<lambda>(_, d). supportedScriptFormats d) dbs)))
      then Some (invalid_values ''format'')
      else None)"

definition add_check ::
  "(string \<times> ('w, 'c, 't) DatabaseConfig) list \<Rightarrow> string \<Rightarrow> string \<Rightarrow> string option \<Rightarrow>
   string option \<Rightarrow> error + bool" where
  \<open>add_check dbs db type envOptValue format =
     (if type = ''seed'' \<and> \<not> truthy envOptValue
      then Inl (Error (''Environment is required when adding a seed file, to indicate'' @
                       ''in which environment the seed should be applied.''))
      else if type = ''migration'' \<and> truthy envOptValue
      then Inl (Error (''You cannot provide an environment when creating a migration; '' @
                       ''every migration is run in every environment for schema consistency.''))
      else
        (case getEnv dbs db envOptValue of
           Inl e \<Rightarrow> Inl e
         | Inr env \<Rightarrow>
             (case map_of dbs db of
                None \<Rightarrow> Inl TypeError
              | Some d \<Rightarrow>
                  if truthy env \<and> \<not> array_includes (supportedEnvironments d) env
                  then Inl (makeInvalidEnvironmentError d env)
                  else if format \<noteq> None \<and> \<not> array_includes (supportedScriptFormats d) format
                  then Inl (Error (''The db "'' @ db @ ''" doesn't support .'' @
                                   interpolate format @ '' files as scripts.''))
                  else Inr True)))\<close>

text \<open>
  The handler. \<^verbatim>\<open>nameScript\<close> belongs to script-generator and Umzug's \<^verbatim>\<open>create\<close> to
  the engine; both are parameters: \<open>create folder template name allowExtension\<close> stands
  for \<^verbatim>\<open>new Umzug({create: {template, folder}, ...}).create({name, allowExtension, ...})\<close>.
\<close>

definition template :: "('w, 'c, 't) DatabaseConfig \<Rightarrow> string \<Rightarrow> (string \<times> string) list" where
  "template d filePath =
     [(filePath, case getTemplate d of None \<Rightarrow> [] | Some g \<Rightarrow> g filePath)]"

definition add_handler ::
  "(string \<Rightarrow> string option \<Rightarrow> string \<Rightarrow> string) \<Rightarrow>
   (string \<Rightarrow> (string \<Rightarrow> (string \<times> string) list) \<Rightarrow> string \<Rightarrow> string \<Rightarrow> ('w, unit) effect) \<Rightarrow>
   (string \<times> ('w, 'c, 't) DatabaseConfig) list \<Rightarrow> string \<Rightarrow> string \<Rightarrow> string \<Rightarrow> string option \<Rightarrow>
   string option \<Rightarrow> (('w, event) state, unit) effect" where
  "add_handler nameScript create dbs db nm type envOptValue formatOptValue s =
     (case map_of dbs db of
        None \<Rightarrow> (Inl TypeError, s)
      | Some d \<Rightarrow>
          (case getEnv dbs db envOptValue of
             Inl e \<Rightarrow> (Inl e, s)
           | Inr env \<Rightarrow>
               (let format = (case formatOptValue of Some f \<Rightarrow> f | None \<Rightarrow> defaultScriptFormat d);
                    file = nameScript type env nm @ ''.'' @ format
                in call (Call db (MigratorCreate file))
                     (create (scriptsDirectory d) (template d) file (''.'' @ format)) s)))"

definition add_command ::
  "(string \<Rightarrow> string option \<Rightarrow> string \<Rightarrow> string) \<Rightarrow>
   (string \<Rightarrow> (string \<Rightarrow> (string \<times> string) list) \<Rightarrow> string \<Rightarrow> string \<Rightarrow> ('w, unit) effect) \<Rightarrow>
   (string \<times> ('w, 'c, 't) DatabaseConfig) list \<Rightarrow> string \<Rightarrow> string \<Rightarrow> string \<Rightarrow> string option \<Rightarrow>
   string option \<Rightarrow> (('w, event) state, unit) effect" where
  "add_command nameScript create dbs db type nm envOptValue format =
     command (add_options dbs db type format) (add_check dbs db type envOptValue format)
       (add_handler nameScript create dbs db nm type envOptValue format)"

subsection \<open>apply-scripts\<close>

definition apply_scripts_check ::
  "(string \<times> ('w, 'c, 't) DatabaseConfig) list \<Rightarrow> string \<Rightarrow> string option \<Rightarrow> string \<Rightarrow>
   string option \<Rightarrow> error + bool" where
  \<open>apply_scripts_check dbs target nm dbName envOptValue =
     (let needsSpecificScript = (target = ''only'' \<or> target = ''until'') in
      if \<not> needsSpecificScript \<and> truthy nm
      then Inl (Error (''Can't provide a general script/set of scripts to run (with '' @
                       ''"next" or "remaining") and then also provide the name of a '' @
                       ''specific script.''))
      else if needsSpecificScript \<and> \<not> truthy nm
      then Inl (Error (''Must provide a script name when you use "only"/"until" to '' @
                       ''apply (only or up to) a specific script.''))
      else environment_check dbs dbName envOptValue)\<close>

definition apply_scripts_handler ::
  "('w, 'c, 't) engine \<Rightarrow> (string \<times> ('w, 'c, 't) DatabaseConfig) list \<Rightarrow> string \<Rightarrow> string option \<Rightarrow>
   string option \<Rightarrow> string \<Rightarrow> (('w, event) state, unit) effect" where
  "apply_scripts_handler engine dbs target nm envOptValue dbName s =
     (case map_of dbs dbName of
        None \<Rightarrow> (Inl TypeError, s)
      | Some db \<Rightarrow>
          (case getEnv dbs dbName envOptValue of
             Inl e \<Rightarrow> (Inl e, s)
           | Inr env \<Rightarrow> apply_scripts_task engine target nm env env dbName db s))"

text \<open>\<^verbatim>\<open>target\<close> has \<^verbatim>\<open>choices\<close> and the default \<^verbatim>\<open>"remaining"\<close>.\<close>

definition apply_scripts_options ::
  "(string \<times> ('w, 'c, 't) DatabaseConfig) list \<Rightarrow> string \<Rightarrow> string \<Rightarrow> string option \<Rightarrow> error option" where
  "apply_scripts_options dbs target db env =
     (if target \<notin> set [''remaining'', ''next'', ''only'', ''until'']
      then Some (invalid_values ''target'')
      else db_env_options dbs db env)"

definition apply_scripts_command ::
  "('w, 'c, 't) engine \<Rightarrow> (string \<times> ('w, 'c, 't) DatabaseConfig) list \<Rightarrow> string \<Rightarrow> string option \<Rightarrow>
   string option \<Rightarrow> string \<Rightarrow> (('w, event) state, unit) effect" where
  "apply_scripts_command engine dbs target nm envOptValue dbName =
     command (apply_scripts_options dbs target dbName envOptValue)
       (apply_scripts_check dbs target nm dbName envOptValue)
       (apply_scripts_handler engine dbs target nm envOptValue dbName)"

subsection \<open>clean, drop, create\<close>

text \<open>
  \<^verbatim>\<open>await dropDbAndDisconnect(env).catch(() => {}); await prepareDbAndDisconnect(env);\<close>
\<close>

definition clean_task ::
  "string option \<Rightarrow> string \<Rightarrow> ('w, 'c, 't) DatabaseConfig \<Rightarrow> (('w, event) state, unit) effect" where
  "clean_task env key db =
     await (caught (Call key DropDb) (dropDbAndDisconnect db env))
       (\<lambda>_. call (Call key PrepareDb) (awaited (prepareDbAndDisconnect db env)))"

definition clean_handler ::
  "(string \<times> ('w, 'c, 't) DatabaseConfig) list \<Rightarrow> string \<Rightarrow> string option \<Rightarrow>
   (('w, event) state, unit) effect" where
  "clean_handler dbs db envOptValue s =
     (case map_of dbs db of
        None \<Rightarrow> (Inl TypeError, s)
      | Some d \<Rightarrow>
          (case getEnv dbs db envOptValue of
             Inl e \<Rightarrow> (Inl e, s)
           | Inr env \<Rightarrow> clean_task env db d s))"

definition clean_command ::
  "(string \<times> ('w, 'c, 't) DatabaseConfig) list \<Rightarrow> string \<Rightarrow> string option \<Rightarrow>
   (('w, event) state, unit) effect" where
  "clean_command dbs db envOptValue =
     command (db_env_options dbs db envOptValue) (environment_check dbs db envOptValue)
       (clean_handler dbs db envOptValue)"

definition drop_handler ::
  "(string \<times> ('w, 'c, 't) DatabaseConfig) list \<Rightarrow> string \<Rightarrow> string option \<Rightarrow>
   (('w, event) state, unit) effect" where
  "drop_handler dbs db envOptValue s =
     (case getEnv dbs db envOptValue of
        Inl e \<Rightarrow> (Inl e, s)
      | Inr env \<Rightarrow>
          (case map_of dbs db of
             None \<Rightarrow> (Inl TypeError, s)
           | Some d \<Rightarrow> call (Call db DropDb) (awaited (dropDbAndDisconnect d env)) s))"

definition drop_command ::
  "(string \<times> ('w, 'c, 't) DatabaseConfig) list \<Rightarrow> string \<Rightarrow> string option \<Rightarrow>
   (('w, event) state, unit) effect" where
  "drop_command dbs db envOptValue =
     command (db_env_options dbs db envOptValue) (environment_check dbs db envOptValue)
       (drop_handler dbs db envOptValue)"

definition create_handler ::
  "(string \<times> ('w, 'c, 't) DatabaseConfig) list \<Rightarrow> string \<Rightarrow> string option \<Rightarrow>
   (('w, event) state, unit) effect" where
  "create_handler dbs db envOptValue s =
     (case getEnv dbs db envOptValue of
        Inl e \<Rightarrow> (Inl e, s)
      | Inr env \<Rightarrow>
          (case map_of dbs db of
             None \<Rightarrow> (Inl TypeError, s)
           | Some d \<Rightarrow> call (Call db PrepareDb) (awaited (prepareDbAndDisconnect d env)) s))"

definition create_command ::
  "(string \<times> ('w, 'c, 't) DatabaseConfig) list \<Rightarrow> string \<Rightarrow> string option \<Rightarrow>
   (('w, event) state, unit) effect" where
  "create_command dbs db envOptValue =
     command (db_env_options dbs db envOptValue) (environment_check dbs db envOptValue)
       (create_handler dbs db envOptValue)"

section \<open>The multi-database handlers\<close>

text \<open>
  The second copy of the command line takes \<^verbatim>\<open>--db\<close> as an array and runs a command for
  every configured database the array names:
  \<^verbatim>\<open>Object.entries(dbs).filter(([dbName, _]) => optDbs.includes(dbName))\<close>.
  Its handlers call the database callbacks without an argument.
\<close>

definition selected :: "(string \<times> 'd) list \<Rightarrow> string list \<Rightarrow> (string \<times> 'd) list" where
  "selected dbs optDbs = filter (\<lambda>(dbName, _). dbName \<in> set optDbs) dbs"

text \<open>\<^verbatim>\<open>res.then(task)\<close>: the task is called once \<open>res\<close> is fulfilled, and not at all if it rejects.\<close>

definition then_task :: "('s, unit) effect \<Rightarrow> ('s, unit) effect \<Rightarrow> ('s, unit) effect" where
  "then_task res task = await res (\<lambda>_. task)"

text \<open>
  \<^verbatim>\<open>migrationTasks.reduce((res, task) => res.then(task), Promise.resolve())\<close>
\<close>

definition apply_scripts_handler_dbs ::
  "('w, 'c, 't) engine \<Rightarrow> (string \<times> ('w, 'c, 't) DatabaseConfig) list \<Rightarrow> string \<Rightarrow> string option \<Rightarrow>
   string option \<Rightarrow> string list option \<Rightarrow> (('w, event) state, unit) effect" where
  "apply_scripts_handler_dbs engine dbs target nm env optDbs =
     (let migrationTasks =
            map (\<lambda>(key, db). apply_scripts_task engine target nm None env key db)
              (selected dbs (case optDbs of None \<Rightarrow> [] | Some ds \<Rightarrow> ds))
      in foldl then_task resolved migrationTasks)"

text \<open>
  The options and the check the second copy declares for apply: \<^verbatim>\<open>--env\<close> is required
  and restricted to a fixed list, \<^verbatim>\<open>--db\<close> is a required array of configured names, and
  the check only relates target and name.
\<close>

definition apply_scripts_options_dbs ::
  "(string \<times> ('w, 'c, 't) DatabaseConfig) list \<Rightarrow> string \<Rightarrow> string list option \<Rightarrow> string option \<Rightarrow>
   error option" where
  "apply_scripts_options_dbs dbs target optDbs env =
     (if target \<notin> set [''remaining'', ''next'', ''only'', ''until'']
      then Some (invalid_values ''target'')
      else
        (case env of
           None \<Rightarrow> Some (missing_argument ''env'')
         | Some e \<Rightarrow>
             if e \<notin> set [''staging'', ''prod'', ''demo''] then Some (invalid_values ''env'')
             else
               (case optDbs of
                  None \<Rightarrow> Some (missing_argument ''db'')
                | Some ds \<Rightarrow>
                    if list_all (\<lambda>d. d \<in> set (map fst dbs)) ds then None
                    else Some (invalid_values ''db''))))"

definition apply_scripts_check_dbs :: "string \<Rightarrow> string option \<Rightarrow> error + bool" where
  \<open>apply_scripts_check_dbs target nm =
     (let needsSpecificScript = (target = ''only'' \<or> target = ''until'') in
      if \<not> needsSpecificScript \<and> truthy nm
      then Inl (Error (''Can't provide a general script/set of scripts to run (with '' @
                       ''"next" or "remaining") and then also provide the name of a '' @
                       ''specific script.''))
      else if needsSpecificScript \<and> \<not> truthy nm
      then Inl (Error (''Must provide a script name when you use "only"/"until" to '' @
                       ''apply (only or up to) a specific script.''))
      else Inr True)\<close>

definition apply_scripts_command_dbs ::
  "('w, 'c, 't) engine \<Rightarrow> (string \<times> ('w, 'c, 't) DatabaseConfig) list \<Rightarrow> string \<Rightarrow> string option \<Rightarrow>
   string option \<Rightarrow> string list option \<Rightarrow> (('w, event) state, unit) effect" where
  "apply_scripts_command_dbs engine dbs target nm env optDbs =
     command (apply_scripts_options_dbs dbs target optDbs env) (apply_scripts_check_dbs target nm)
       (apply_scripts_handler_dbs engine dbs target nm env optDbs)"

text \<open>
  drop and create:
  \<^verbatim>\<open>Promise.all(entries.filter(...).map(([_, db]) => db.dropDbAndDisconnect()))\<close>.
  \<^verbatim>\<open>map\<close> makes the calls in the order of the array. A call that throws while it runs
  ends the \<^verbatim>\<open>map\<close>: the later databases are never called and the handler rejects.
  Otherwise \<^verbatim>\<open>Promise.all\<close> rejects when one of the promises does. (When several
  reject, the one that rejects first in time is reported; the model reports the first in
  array order.)
\<close>

fun call_each :: "('s \<Rightarrow> 'a outcome \<times> 's) list \<Rightarrow> 's \<Rightarrow> (error + 'a outcome list) \<times> 's" where
  "call_each [] s = (Inr [], s)"
| "call_each (m # ms) s =
     (case m s of
        (oc, s1) \<Rightarrow>
          (case oc of
             Throws e \<Rightarrow> (Inl e, s1)
           | _ \<Rightarrow>
               (case call_each ms s1 of
                  (Inl e, s2) \<Rightarrow> (Inl e, s2)
                | (Inr ocs, s2) \<Rightarrow> (Inr (oc # ocs), s2))))"

fun all_fulfilled :: "'a outcome list \<Rightarrow> error + unit" where
  "all_fulfilled [] = Inr ()"
| "all_fulfilled (Throws e # ocs) = Inl e"
| "all_fulfilled (Rejects e # ocs) = Inl e"
| "all_fulfilled (Fulfils v # ocs) = all_fulfilled ocs"

definition promise_all_map ::
  "(string \<times> 'd) list \<Rightarrow> (string \<Rightarrow> 'd \<Rightarrow> 's \<Rightarrow> 'a outcome \<times> 's) \<Rightarrow> ('s, unit) effect" where
  "promise_all_map entries f s =
     (case call_each (map (\<lambda>(key, db). f key db) entries) s of
        (Inl e, s1) \<Rightarrow> (Inl e, s1)
      | (Inr ocs, s1) \<Rightarrow> (all_fulfilled ocs, s1))"

definition drop_handler_dbs ::
  "(string \<times> ('w, 'c, 't) DatabaseConfig) list \<Rightarrow> string list \<Rightarrow> (('w, event) state, unit) effect" where
  "drop_handler_dbs dbs optDbs =
     promise_all_map (selected dbs optDbs)
       (\<lambda>key db. invoke (Call key DropDb) (dropDbAndDisconnect db None))"

definition create_handler_dbs ::
  "(string \<times> ('w, 'c, 't) DatabaseConfig) list \<Rightarrow> string list \<Rightarrow> (('w, event) state, unit) effect" where
  "create_handler_dbs dbs optDbs =
     promise_all_map (selected dbs optDbs)
       (\<lambda>key db. invoke (Call key PrepareDb) (prepareDbAndDisconnect db None))"

text \<open>
  clean maps an \<^verbatim>\<open>async\<close> callback over the selected databases:
  \<^verbatim>\<open>await dropDbAndDisconnect().catch(() => {}); await prepareDbAndDisconnect();\<close>.
  When \<^verbatim>\<open>map\<close> calls it, each callback runs up to its first \<^verbatim>\<open>await\<close>: it calls its drop,
  and is then either suspended on it or, if the drop threw while it ran, already rejected
  (an \<^verbatim>\<open>async\<close> callback turns the throw into its own rejection, so \<^verbatim>\<open>map\<close> goes on).
  \<open>settle_all\<close> runs a list of such steps in order, none stopping another;
  \<open>clean_started\<close> is the run up to the return of \<^verbatim>\<open>map\<close>.
\<close>

fun settle_all :: "('s, 'a) effect list \<Rightarrow> 's \<Rightarrow> (error + 'a) list \<times> 's" where
  "settle_all [] s = ([], s)"
| "settle_all (m # ms) s =
     (case m s of (r, s1) \<Rightarrow> (case settle_all ms s1 of (rs, s2) \<Rightarrow> (r # rs, s2)))"

definition clean_started ::
  "(string \<times> ('w, 'c, 't) DatabaseConfig) list \<Rightarrow> string list \<Rightarrow> ('w, event) state \<Rightarrow>
   (error + unit) list \<times> ('w, event) state" where
  "clean_started dbs optDbs =
     settle_all
       (map (\<lambda>(key, db). caught (Call key DropDb) (dropDbAndDisconnect db None))
          (selected dbs optDbs))"

text \<open>
  A suspended callback resumes, and calls its prepare, when its own drop settles. The
  program does not fix when the drops settle, so it is a parameter: \<open>settles key\<close> is
  the time at which the drop of \<open>key\<close> settles. The callbacks resume in the order of
  these times, and those with equal times in the order they were started.
\<close>

definition resume_order :: "(string \<Rightarrow> nat) \<Rightarrow> (string \<times> 'd) list \<Rightarrow> (string \<times> 'd) list" where
  "resume_order settles pending = sort_key (\<lambda>(key, _). settles key) pending"

fun first_rejection :: "(error + 'a) list \<Rightarrow> error + 'a list" where
  "first_rejection [] = Inr []"
| "first_rejection (Inl e # rs) = Inl e"
| "first_rejection (Inr a # rs) =
     (case first_rejection rs of Inl e \<Rightarrow> Inl e | Inr as \<Rightarrow> Inr (a # as))"

text \<open>
  \<^verbatim>\<open>Promise.all\<close> does not cancel a callback: every suspended callback calls its
  prepare. The handler fails when a callback rejected, by its drop throwing or by its
  prepare failing. (The model reports the callbacks rejected at the start first.)
\<close>

definition clean_handler_dbs ::
  "(string \<Rightarrow> nat) \<Rightarrow> (string \<times> ('w, 'c, 't) DatabaseConfig) list \<Rightarrow> string list \<Rightarrow>
   (('w, event) state, unit) effect" where
  "clean_handler_dbs settles dbs optDbs s =
     (case clean_started dbs optDbs s of
        (started, s1) \<Rightarrow>
          (case settle_all
                  (map (\<lambda>(key, db).
                          call (Call key PrepareDb) (awaited (prepareDbAndDisconnect db None)))
                     (resume_order settles
                        [entry. (Inr _, entry) \<leftarrow> zip started (selected dbs optDbs)])) s1 of
             (finished, s2) \<Rightarrow>
               ((case first_rejection (filter isl started @ finished) of
                   Inl e \<Rightarrow> Inl e
                 | Inr _ \<Rightarrow> Inr ()), s2)))"

text \<open>
  The calls of a complete run of \<open>apply_scripts_task\<close> for one database, in order; the
  theorems on the multi-database apply handler are stated with it.
\<close>

abbreviation lifecycle :: "up_options \<Rightarrow> string \<times> ('w, 'c, 't) DatabaseConfig \<Rightarrow> event list" where
  "lifecycle opts \<equiv> (\<lambda>(key, db).
       [Call key CreateContext, Call key CreateStorage, Call key (MigratorUp opts),
        Call key DestroyContext] @
       (case destroyStorage db of Defined _ \<Rightarrow> [Call key DestroyStorage] | _ \<Rightarrow> []))"

section \<open>Example inputs\<close>

text \<open>
  A world that counts the calls made on it, used to run the definitions on concrete
  inputs. \<open>db_a\<close> works; \<open>db_b\<close> has no \<^verbatim>\<open>destroyStorage\<close>, its \<^verbatim>\<open>destroyContext\<close>
  rejects, its drop rejects and its \<^verbatim>\<open>createContext\<close> returns a promise that rejects.
\<close>

definition tick :: "'a \<Rightarrow> nat \<Rightarrow> 'a \<times> nat" where
  "tick r w = (r, Suc w)"

definition db_a :: "(nat, string, string) DatabaseConfig" where
  "db_a =
     \<lparr>defaultScriptFormat = ''sql'',
      supportedScriptFormats = [''sql'', ''js''],
      supportedEnvironments = [''staging'', ''prod''],
      defaultEnvironment = Some ''staging'',
      scriptsDirectory = ''a/scripts'',
      getTemplate = None,
      prepareDbAndDisconnect = (\<lambda>_. tick (Fulfils ())),
      dropDbAndDisconnect = (\<lambda>_. tick (Fulfils ())),
      createContext = (\<lambda>_. tick (Fulfils ''ctx-a'')),
      createStorage = (\<lambda>_. tick (Fulfils ''store-a'')),
      destroyContext = (\<lambda>_. tick (Inr ())),
      destroyStorage = Defined (\<lambda>_. tick (Inr ()))\<rparr>"

definition db_b :: "(nat, string, string) DatabaseConfig" where
  "db_b =
     \<lparr>defaultScriptFormat = ''js'',
      supportedScriptFormats = [''js''],
      supportedEnvironments = [''staging''],
      defaultEnvironment = None,
      scriptsDirectory = ''b/scripts'',
      getTemplate = Some (\<lambda>_. ''// new script''),
      prepareDbAndDisconnect = (\<lambda>_. tick (Fulfils ())),
      dropDbAndDisconnect = (\<lambda>_. tick (Rejects (Error ''does not exist''))),
      createContext = (\<lambda>_. tick (Rejects (Error ''no connection''))),
      createStorage = (\<lambda>_. tick (Fulfils ''store-b'')),
      destroyContext = (\<lambda>_. tick (Inl (Error ''cleanup failed''))),
      destroyStorage = Absent\<rparr>"

text \<open>\<open>db_c\<close> acquires its resources, but closing its context fails.\<close>

definition db_c :: "(nat, string, string) DatabaseConfig" where
  "db_c = db_a\<lparr>destroyContext := (\<lambda>_. tick (Inl (Error ''cleanup failed'')))\<rparr>"

text \<open>
  The drop of \<open>db_d\<close> is not an \<^verbatim>\<open>async\<close> function and throws before it returns its
  promise.
\<close>

definition db_d :: "(nat, string, string) DatabaseConfig" where
  "db_d = db_a\<lparr>dropDbAndDisconnect := (\<lambda>_. tick (Throws (Error ''no driver'')))\<rparr>"

definition dbs_da :: "(string \<times> (nat, string, string) DatabaseConfig) list" where
  "dbs_da = [(''d'', db_d), (''a'', db_a)]"

definition dbs_abc :: "(string \<times> (nat, string, string) DatabaseConfig) list" where
  "dbs_abc = [(''a'', db_a), (''b'', db_b), (''c'', db_c)]"

definition engine_ok :: "(nat, string, string) engine" where
  "engine_ok key env c t opts = tick (Inr ())"

definition engine_fails :: "(nat, string, string) engine" where
  "engine_fails key env c t opts = tick (Inl (Error ''migration failed''))"

text \<open>Settling times under which the drop of \<open>c\<close> settles before every other drop.\<close>

definition c_first :: "string \<Rightarrow> nat" where
  "c_first key = (if key = ''c'' then 0 else 1)"

definition start :: "(nat, event) state" where
  "start = \<lparr>world = 0, trace = []\<rparr>"

definition name_script :: "string \<Rightarrow> string option \<Rightarrow> string \<Rightarrow> string" where
  "name_script type env nm = type @ ''.'' @ interpolate env @ ''.'' @ nm"

definition create_file ::
  "string \<Rightarrow> (string \<Rightarrow> (string \<times> string) list) \<Rightarrow> string \<Rightarrow> string \<Rightarrow> (nat, unit) effect" where
  "create_file folder tpl file ext = tick (Inr ())"

definition hooks_ab :: "nat hooks" where
  "hooks_ab = \<lparr>runBefore = Some (tick (Inr ())), runAfter = Some (tick (Inr ()))\<rparr>"

definition migration_fails :: "(unit, nat) RunnableMigration" where
  "migration_fails =
     \<lparr>name = ''m1'', path = None,
      up = (\<lambda>_. tick (Inl (Error ''migration failed''))),
      down = Some (\<lambda>_. tick (Inr ()))\<rparr>"

section \<open>Properties of wrapMigration\<close>

lemma sandwich_both:
  "sandwich \<lparr>runBefore = Some b, runAfter = Some a\<rparr> ev body s =
     (case b (world s) of
        (Inl e, w1) \<Rightarrow> (Inl e, \<lparr>world = w1, trace = trace s @ [RunBefore]\<rparr>)
      | (Inr _, w1) \<Rightarrow>
          (case body w1 of
             (Inl e, w2) \<Rightarrow> (Inl e, \<lparr>world = w2, trace = trace s @ [RunBefore, ev]\<rparr>)
           | (Inr _, w2) \<Rightarrow>
               (case a w2 of
                  (r, w3) \<Rightarrow> (r, \<lparr>world = w3, trace = trace s @ [RunBefore, ev, RunAfter]\<rparr>))))"
  by (simp add: sandwich_def await_def optional_call_def call_def
      split: prod.splits sum.splits)

text \<open>
  Claim C8. For every migration \<open>m\<close> and hooks \<open>h\<close>, the wrapped object has a \<^verbatim>\<open>down\<close>
  member exactly when \<open>m\<close> has one: with \<open>down m\<close> absent the wrapped \<open>down\<close> is absent,
  and with \<open>down m\<close> present the wrapped \<open>down\<close> is a function, namely the hook sandwich
  around the original \<open>down\<close>. The other members are carried over.
\<close>

theorem wrapMigration_down_iff:
  "(down (wrapMigration h m) = None) = (down m = None)
   \<and> down (wrapMigration h m) =
       map_option (\<lambda>d params. sandwich h MigrationDown (d params)) (down m)
   \<and> name (wrapMigration h m) = name m \<and> path (wrapMigration h m) = path m"
  by (simp add: wrapMigration_def split: option.splits)

text \<open>
  Claim C2. With both hooks given, a call of the wrapped \<^verbatim>\<open>up\<close> runs \<open>runBefore\<close> first,
  on the world of the call. If \<open>runBefore\<close> fails the migration is not attempted. Otherwise
  the migration's \<open>up\<close> runs on the world \<open>runBefore\<close> left; if it rejects, the rejection is
  the result and the trace ends with the migration, so \<open>runAfter\<close> was not invoked. If it
  succeeds, \<open>runAfter\<close> runs on the world it left and the trace of the call is exactly
  \<open>RunBefore, MigrationUp, RunAfter\<close>: each invoked once, in that order, each on the world
  its predecessor completed with. The same holds for \<^verbatim>\<open>down\<close> when the migration has one.
\<close>

theorem wrapMigration_order:
  assumes "runBefore h = Some b" and "runAfter h = Some a"
  shows "up (wrapMigration h m) params s =
     (case b (world s) of
        (Inl e, w1) \<Rightarrow> (Inl e, \<lparr>world = w1, trace = trace s @ [RunBefore]\<rparr>)
      | (Inr _, w1) \<Rightarrow>
          (case up m params w1 of
             (Inl e, w2) \<Rightarrow> (Inl e, \<lparr>world = w2, trace = trace s @ [RunBefore, MigrationUp]\<rparr>)
           | (Inr _, w2) \<Rightarrow>
               (case a w2 of
                  (r, w3) \<Rightarrow>
                    (r, \<lparr>world = w3, trace = trace s @ [RunBefore, MigrationUp, RunAfter]\<rparr>))))
   \<and> (\<forall>d. down m = Some d \<longrightarrow>
     (\<exists>wd. down (wrapMigration h m) = Some wd \<and> wd params s =
     (case b (world s) of
        (Inl e, w1) \<Rightarrow> (Inl e, \<lparr>world = w1, trace = trace s @ [RunBefore]\<rparr>)
      | (Inr _, w1) \<Rightarrow>
          (case d params w1 of
             (Inl e, w2) \<Rightarrow> (Inl e, \<lparr>world = w2, trace = trace s @ [RunBefore, MigrationDown]\<rparr>)
           | (Inr _, w2) \<Rightarrow>
               (case a w2 of
                  (r, w3) \<Rightarrow>
                    (r, \<lparr>world = w3, trace = trace s @ [RunBefore, MigrationDown, RunAfter]\<rparr>))))))"
proof -
  have h: "h = \<lparr>runBefore = Some b, runAfter = Some a\<rparr>"
    using assms by (cases h) simp
  show ?thesis
    unfolding h by (simp add: wrapMigration_def sandwich_both)
qed

theorem wrapMigration_order_witness:
  "runBefore hooks_ab = Some (tick (Inr ())) \<and> runAfter hooks_ab = Some (tick (Inr ()))
   \<and> up (wrapMigration hooks_ab migration_fails) () \<lparr>world = 0, trace = []\<rparr> =
       (Inl (Error ''migration failed''), \<lparr>world = 2, trace = [RunBefore, MigrationUp]\<rparr>)
   \<and> (\<exists>wd. down (wrapMigration hooks_ab migration_fails) = Some wd
         \<and> wd () \<lparr>world = 0, trace = []\<rparr> =
             (Inr (), \<lparr>world = 3, trace = [RunBefore, MigrationDown, RunAfter]\<rparr>))"
proof -
  have b: "runBefore hooks_ab = Some (tick (Inr ()))"
    and a: "runAfter hooks_ab = Some (tick (Inr ()))"
    by (simp_all add: hooks_ab_def)
  have d: "down migration_fails = Some (\<lambda>_. tick (Inr ()))"
    by (simp add: migration_fails_def)
  from wrapMigration_order [OF b a, of migration_fails "()" "\<lparr>world = 0, trace = []\<rparr>"] d
  show ?thesis
    by (simp add: a b migration_fails_def tick_def eval_nat_numeral)
qed

section \<open>Properties of the apply handler\<close>

lemma acquire_cases:
  assumes "createContext db env (world s) = (c, w1)" and "createStorage db env w1 = (t, w2)"
  shows "acquire key db env s =
     (case c of
        Throws e \<Rightarrow> (Inl e, \<lparr>world = w1, trace = trace s @ [Call key CreateContext]\<rparr>)
      | _ \<Rightarrow>
         (case t of
            Throws e \<Rightarrow>
              (Inl e, \<lparr>world = w2, trace = trace s @ [Call key CreateContext, Call key CreateStorage]\<rparr>)
          | _ \<Rightarrow>
              (promise_all2 c t,
               \<lparr>world = w2, trace = trace s @ [Call key CreateContext, Call key CreateStorage]\<rparr>)))"
  using assms by (simp add: acquire_def split: outcome.splits)

lemma task_after_acquire:
  assumes "createContext db cenv (world s) = (Fulfils c, w1)"
    and "createStorage db cenv w1 = (Fulfils t, w2)"
  shows "apply_scripts_task engine target nm cenv env key db s =
     try_finally (migrate engine target nm env key c t) (release key db c t)
       \<lparr>world = w2, trace = trace s @ [Call key CreateContext, Call key CreateStorage]\<rparr>"
  using assms by (simp add: apply_scripts_task_def await_def acquire_cases promise_all2_def)

lemma release_cases:
  "release key db c t s =
     (case destroyContext db c (world s) of
        (Inl e, w1) \<Rightarrow> (Inl e, \<lparr>world = w1, trace = trace s @ [Call key DestroyContext]\<rparr>)
      | (Inr _, w1) \<Rightarrow>
          (case destroyStorage db of
             Defined f \<Rightarrow>
               (case f t w1 of
                  (r, w2) \<Rightarrow>
                    (r, \<lparr>world = w2,
                          trace = trace s @ [Call key DestroyContext, Call key DestroyStorage]\<rparr>))
           | _ \<Rightarrow> (Inr (), \<lparr>world = w1, trace = trace s @ [Call key DestroyContext]\<rparr>)))"
  by (simp add: release_def await_def call_def resolved_def
      split: prod.splits sum.splits member.splits)

lemma handler_runs_task:
  assumes "map_of dbs dbName = Some db" and "getEnv dbs dbName envOptValue = Inr env"
  shows "apply_scripts_handler engine dbs target nm envOptValue dbName s =
           apply_scripts_task engine target nm env env dbName db s"
  using assms by (simp add: apply_scripts_handler_def)

text \<open>
  The body of the apply handler is the same in both copies of the command line
  (\<open>apply_scripts_task\<close>). When both resources were acquired and the engine call fails
  with \<open>e\<close>, \<^verbatim>\<open>destroyContext\<close> is invoked next, on the world the engine left, and
  \<^verbatim>\<open>destroyStorage\<close> after it when the database defines it and \<^verbatim>\<open>destroyContext\<close>
  fulfilled. The task fails with \<open>e\<close> when every cleanup call fulfils; a cleanup call that
  fails replaces \<open>e\<close> by its own error.
\<close>

lemma engine_failure_teardown:
  assumes "createContext db cenv (world s) = (Fulfils c, w1)"
    and "createStorage db cenv w1 = (Fulfils t, w2)"
    and "up_options_of target nm = Some opts"
    and "engine key env c t opts w2 = (Inl e, w3)"
  shows "apply_scripts_task engine target nm cenv env key db s =
     (let acquired = trace s @ [Call key CreateContext, Call key CreateStorage,
                                Call key (MigratorUp opts)] in
      case destroyContext db c w3 of
        (Inl e1, w4) \<Rightarrow> (Inl e1, \<lparr>world = w4, trace = acquired @ [Call key DestroyContext]\<rparr>)
      | (Inr _, w4) \<Rightarrow>
          (case destroyStorage db of
             Defined f \<Rightarrow>
               (case f t w4 of
                  (Inl e2, w5) \<Rightarrow>
                    (Inl e2, \<lparr>world = w5,
                              trace = acquired @ [Call key DestroyContext, Call key DestroyStorage]\<rparr>)
                | (Inr _, w5) \<Rightarrow>
                    (Inl e, \<lparr>world = w5,
                             trace = acquired @ [Call key DestroyContext, Call key DestroyStorage]\<rparr>))
           | _ \<Rightarrow> (Inl e, \<lparr>world = w4, trace = acquired @ [Call key DestroyContext]\<rparr>)))"
  using assms
  by (simp add: task_after_acquire try_finally_def migrate_def call_def release_cases
      split: prod.splits sum.splits member.splits)

text \<open>
  Claim C1. When the engine invocation throws, \<^verbatim>\<open>destroyContext\<close> and, if the database
  defines it, \<^verbatim>\<open>destroyStorage\<close> are to be invoked before the command settles, and the
  engine's error is to propagate. The handler does not do so when closing the context
  fails. For \<^verbatim>\<open>apply --db c --env staging\<close>, where the engine rejects with "migration
  failed" and \<^verbatim>\<open>destroyContext\<close> of \<open>c\<close> rejects with "cleanup failed", the command
  fails with the cleanup error, so the error of the try block is lost, and
  \<^verbatim>\<open>destroyStorage\<close>, which \<open>c\<close> defines, is never invoked.
\<close>

theorem cleanup_error_replaces_engine_error:
  "engine_fails ''c'' (Some ''staging'') ''ctx-a'' ''store-a'' NoOptions 2 =
     (Inl (Error ''migration failed''), 3)
   \<and> (\<exists>f. destroyStorage db_c = Defined f)
   \<and> apply_scripts_handler engine_fails dbs_abc ''remaining'' None (Some ''staging'') ''c'' start =
       (Inl (Error ''cleanup failed''),
        \<lparr>world = 4,
         trace = [Call ''c'' CreateContext, Call ''c'' CreateStorage, Call ''c'' (MigratorUp NoOptions),
                  Call ''c'' DestroyContext]\<rparr>)"
  by (simp add: engine_fails_def db_c_def db_a_def dbs_abc_def start_def tick_def
      apply_scripts_handler_def getEnv_def apply_scripts_task_def await_def acquire_def
      promise_all2_def try_finally_def migrate_def up_options_of_def call_def release_def
      eval_nat_numeral)

text \<open>
  Claim C9. In the apply handler of cli.ts the array literal calls \<^verbatim>\<open>createContext\<close> and
  then \<^verbatim>\<open>createStorage\<close> before either result is awaited: unless \<^verbatim>\<open>createContext\<close>
  throws while it runs, both calls are made, also when the promise of \<^verbatim>\<open>createContext\<close>
  rejects. If either of them fails, the command fails, and the calls made are the two
  create calls and nothing else: neither \<^verbatim>\<open>destroyContext\<close> nor \<^verbatim>\<open>destroyStorage\<close> is
  invoked, so a resource whose sibling failed is never destroyed.
\<close>

theorem acquisition_failure_no_teardown:
  assumes "map_of dbs dbName = Some db" and "getEnv dbs dbName envOptValue = Inr env"
    and "createContext db env (world s) = (c, w1)" and "createStorage db env w1 = (t, w2)"
  shows "(\<forall>e. c = Throws e \<longrightarrow>
            apply_scripts_handler engine dbs target nm envOptValue dbName s =
              (Inl e, \<lparr>world = w1, trace = trace s @ [Call dbName CreateContext]\<rparr>))
       \<and> ((\<forall>e. c \<noteq> Throws e) \<and> \<not> (\<exists>x y. c = Fulfils x \<and> t = Fulfils y) \<longrightarrow>
            (\<exists>e. apply_scripts_handler engine dbs target nm envOptValue dbName s =
              (Inl e, \<lparr>world = w2,
                        trace = trace s @ [Call dbName CreateContext, Call dbName CreateStorage]\<rparr>)))"
  using assms(3,4) unfolding handler_runs_task [OF assms(1,2)]
  by (cases c; cases t)
    (simp_all add: apply_scripts_task_def await_def acquire_cases promise_all2_def)

theorem acquisition_failure_no_teardown_witness:
  "map_of dbs_abc ''b'' = Some db_b
   \<and> getEnv dbs_abc ''b'' (Some ''staging'') = Inr (Some ''staging'')
   \<and> createContext db_b (Some ''staging'') (world start) = (Rejects (Error ''no connection''), 1)
   \<and> createStorage db_b (Some ''staging'') 1 = (Fulfils ''store-b'', 2)
   \<and> (\<exists>e. apply_scripts_handler engine_ok dbs_abc ''remaining'' None (Some ''staging'') ''b'' start =
       (Inl e, \<lparr>world = 2, trace = [Call ''b'' CreateContext, Call ''b'' CreateStorage]\<rparr>))"
proof -
  have 1: "map_of dbs_abc ''b'' = Some db_b" by (simp add: dbs_abc_def)
  have 2: "getEnv dbs_abc ''b'' (Some ''staging'') = Inr (Some ''staging'')"
    by (simp add: getEnv_def 1)
  have 3: "createContext db_b (Some ''staging'') (world start) =
             (Rejects (Error ''no connection''), 1)"
    by (simp add: db_b_def start_def tick_def)
  have 4: "createStorage db_b (Some ''staging'') 1 = (Fulfils ''store-b'', 2)"
    by (simp add: db_b_def tick_def eval_nat_numeral)
  from acquisition_failure_no_teardown [OF 1 2 3 4, of engine_ok "''remaining''" None]
  have "\<exists>e. apply_scripts_handler engine_ok dbs_abc ''remaining'' None (Some ''staging'') ''b'' start =
       (Inl e, \<lparr>world = 2, trace = trace start @ [Call ''b'' CreateContext, Call ''b'' CreateStorage]\<rparr>)"
    by simp
  with 1 2 3 4 show ?thesis by (simp add: start_def)
qed

section \<open>Properties of the command runner\<close>

lemma command_invalid: "command (Some e) checked handler s = (Inl e, s)"
  by (simp add: command_def)

lemma command_check_throws: "command None (Inl e) handler s = (Inl e, s)"
  by (simp add: command_def)

lemma command_rejects:
  "invalid \<noteq> None \<or> (\<exists>e. checked = Inl e) \<Longrightarrow> \<exists>e. command invalid checked handler s = (Inl e, s)"
  by (auto simp: command_def split: option.splits)

section \<open>Properties of argument validation\<close>

text \<open>
  The check of add tests the truthiness of \<^verbatim>\<open>opts.env\<close>. When the type is seed and
  \<^verbatim>\<open>opts.env\<close> is falsy, or the type is migration and it is truthy, the command fails and
  the state is the one it started from: nothing was called, so no file was written.
\<close>

lemma add_env_presence:
  assumes "(type = ''seed'' \<and> \<not> truthy envOptValue) \<or> (type = ''migration'' \<and> truthy envOptValue)"
  shows "\<exists>e. add_command nameScript create dbs db type nm envOptValue format s = (Inl e, s)"
proof -
  have "\<exists>e. add_check dbs db type envOptValue format = Inl e"
    using assms by (auto simp: add_check_def)
  then show ?thesis
    unfolding add_command_def by (intro command_rejects) simp
qed

text \<open>
  Claim C7. An add of type migration that is given an environment is to be rejected
  before any file is written. The empty string is an environment given on the command
  line (\<^verbatim>\<open>--env ""\<close>), and \<^verbatim>\<open>getEnv\<close> takes it as given, but it is falsy: for
  \<^verbatim>\<open>add a migration users --env ""\<close> the rule on migrations and the test of the
  environment are both skipped, the command succeeds and the handler creates the file.
\<close>

theorem add_migration_empty_env:
  "add_command name_script create_file dbs_abc ''a'' ''migration'' ''users'' (Some '''') None start =
     (Inr (), \<lparr>world = 1, trace = [Call ''a'' (MigratorCreate ''migration..users.sql'')]\<rparr>)"
  by (simp add: add_command_def add_options_def add_check_def add_handler_def command_def
      dbs_abc_def db_a_def scriptTypes_def truthy_def getEnv_def array_includes_def
      name_script_def interpolate_def create_file_def call_def tick_def start_def)

lemma environment_check_invalid:
  assumes "map_of dbs db = Some d" and "getEnv dbs db envOptValue = Inr env"
    and "\<not> array_includes (supportedEnvironments d) env"
  shows "environment_check dbs db envOptValue = Inl (makeInvalidEnvironmentError d env)"
  using assms by (simp add: environment_check_def)

lemma db_env_options_ok:
  assumes "map_of dbs db = Some d" and "envOptValue \<noteq> None"
  shows "db_env_options dbs db envOptValue = None"
proof -
  from assms(1) have "(db, d) \<in> set dbs" by (rule map_of_SomeD)
  then have "db \<in> fst ` set dbs" by force
  with assms(2) show ?thesis by (simp add: db_env_options_def)
qed

lemma validated_invalid:
  assumes "map_of dbs db = Some d" and "getEnv dbs db envOptValue = Inr env"
    and "\<not> array_includes (supportedEnvironments d) env"
  shows "command (db_env_options dbs db envOptValue) (environment_check dbs db envOptValue) handler s =
     (Inl (if envOptValue = None then missing_argument ''env''
           else makeInvalidEnvironmentError d env), s)"
proof (cases "envOptValue = None")
  case True
  then show ?thesis by (simp add: db_env_options_def command_def)
next
  case False
  then obtain e where e: "envOptValue = Some e" by blast
  with assms have "db_env_options dbs db envOptValue = None"
    by (simp add: db_env_options_ok)
  with assms e show ?thesis
    by (simp add: environment_check_invalid command_check_throws)
qed

lemma apply_invalid:
  assumes "map_of dbs db = Some d" and "getEnv dbs db envOptValue = Inr env"
    and "\<not> array_includes (supportedEnvironments d) env"
  shows "\<exists>e. apply_scripts_command engine dbs target nm envOptValue db s = (Inl e, s)"
    and "envOptValue \<noteq> None \<Longrightarrow> apply_scripts_options dbs target db envOptValue = None \<Longrightarrow>
         (target = ''only'' \<or> target = ''until'') = truthy nm \<Longrightarrow>
         apply_scripts_command engine dbs target nm envOptValue db s =
           (Inl (makeInvalidEnvironmentError d env), s)"
proof -
  have "\<exists>e. apply_scripts_check dbs target nm db envOptValue = Inl e"
    using assms by (simp add: apply_scripts_check_def environment_check_invalid Let_def)
  then show "\<exists>e. apply_scripts_command engine dbs target nm envOptValue db s = (Inl e, s)"
    unfolding apply_scripts_command_def by (intro command_rejects) simp
  assume "envOptValue \<noteq> None" "apply_scripts_options dbs target db envOptValue = None"
    "(target = ''only'' \<or> target = ''until'') = truthy nm"
  with assms show "apply_scripts_command engine dbs target nm envOptValue db s =
           (Inl (makeInvalidEnvironmentError d env), s)"
    by (simp add: apply_scripts_command_def apply_scripts_check_def environment_check_invalid
        Let_def command_check_throws)
qed

lemma add_invalid:
  assumes "map_of dbs db = Some d" and "getEnv dbs db envOptValue = Inr env"
    and "\<not> array_includes (supportedEnvironments d) env" and "truthy env"
  shows "\<exists>e. add_command nameScript create dbs db type nm envOptValue format s = (Inl e, s)"
    and "add_options dbs db type format = None \<Longrightarrow>
         \<not> (type = ''seed'' \<and> \<not> truthy envOptValue) \<Longrightarrow>
         \<not> (type = ''migration'' \<and> truthy envOptValue) \<Longrightarrow>
         add_command nameScript create dbs db type nm envOptValue format s =
           (Inl (makeInvalidEnvironmentError d env), s)"
proof -
  have "\<exists>e. add_check dbs db type envOptValue format = Inl e"
    using assms by (simp add: add_check_def)
  then show "\<exists>e. add_command nameScript create dbs db type nm envOptValue format s = (Inl e, s)"
    unfolding add_command_def by (intro command_rejects) simp
  assume "add_options dbs db type format = None"
    "\<not> (type = ''seed'' \<and> \<not> truthy envOptValue)" "\<not> (type = ''migration'' \<and> truthy envOptValue)"
  with assms show "add_command nameScript create dbs db type nm envOptValue format s =
           (Inl (makeInvalidEnvironmentError d env), s)"
    by (auto simp: add_command_def add_check_def command_check_throws)
qed

text \<open>
  Claim C6, as cli.ts has it. Let the resolved environment (the \<^verbatim>\<open>--env\<close> flag, or
  the default of the database when the flag is absent) not be a member of the supported
  environments of the database. Then clean, drop, create and apply fail with the state
  unchanged: nothing was acquired, created or dropped. For clean, drop and create the
  error is the invalid-environment error unless the required flag is missing; for apply
  it is that error when the flag is given, the options are valid and the rule on target
  and name holds. add fails with the state unchanged when the resolved environment is a
  non-empty string, and with the invalid-environment error when moreover its options are
  valid and its rule on the presence of \<^verbatim>\<open>--env\<close> does not reject first.
\<close>

theorem invalid_environment_rejected:
  assumes "map_of dbs db = Some d" and "getEnv dbs db envOptValue = Inr env"
    and "\<not> array_includes (supportedEnvironments d) env"
  shows "clean_command dbs db envOptValue s =
           (Inl (if envOptValue = None then missing_argument ''env''
                 else makeInvalidEnvironmentError d env), s)
       \<and> drop_command dbs db envOptValue s =
           (Inl (if envOptValue = None then missing_argument ''env''
                 else makeInvalidEnvironmentError d env), s)
       \<and> create_command dbs db envOptValue s =
           (Inl (if envOptValue = None then missing_argument ''env''
                 else makeInvalidEnvironmentError d env), s)
       \<and> (\<exists>e. apply_scripts_command engine dbs target nm envOptValue db s = (Inl e, s))
       \<and> (envOptValue \<noteq> None \<and> apply_scripts_options dbs target db envOptValue = None
            \<and> (target = ''only'' \<or> target = ''until'') = truthy nm \<longrightarrow>
          apply_scripts_command engine dbs target nm envOptValue db s =
            (Inl (makeInvalidEnvironmentError d env), s))
       \<and> (truthy env \<longrightarrow>
            (\<exists>e. add_command nameScript create dbs db type snm envOptValue format s = (Inl e, s)))
       \<and> (truthy env \<and> add_options dbs db type format = None
            \<and> \<not> (type = ''seed'' \<and> \<not> truthy envOptValue)
            \<and> \<not> (type = ''migration'' \<and> truthy envOptValue) \<longrightarrow>
          add_command nameScript create dbs db type snm envOptValue format s =
            (Inl (makeInvalidEnvironmentError d env), s))"
proof -
  note v = validated_invalid [OF assms]
  have 1: "clean_command dbs db envOptValue s =
           (Inl (if envOptValue = None then missing_argument ''env''
                 else makeInvalidEnvironmentError d env), s)"
    unfolding clean_command_def by (rule v)
  have 2: "drop_command dbs db envOptValue s =
           (Inl (if envOptValue = None then missing_argument ''env''
                 else makeInvalidEnvironmentError d env), s)"
    unfolding drop_command_def by (rule v)
  have 3: "create_command dbs db envOptValue s =
           (Inl (if envOptValue = None then missing_argument ''env''
                 else makeInvalidEnvironmentError d env), s)"
    unfolding create_command_def by (rule v)
  note 4 = apply_invalid [OF assms, where engine = engine and target = target and nm = nm and s = s]
  note 5 = add_invalid [OF assms, where nameScript = nameScript and create = create
      and type = type and nm = snm and format = format and s = s]
  show ?thesis
    using 1 2 3 4 5 by (intro conjI impI) (simp_all only:, blast+)
qed

text \<open>
  Claim C6 as stated fails in three places. \<^verbatim>\<open>add a migration users --env qa\<close>, where
  \<open>qa\<close> is not an environment of \<open>a\<close>, is rejected before anything is written, but by the
  rule that a migration takes no environment: the message neither names \<open>qa\<close> nor lists
  the valid environments. \<^verbatim>\<open>add b migration users --env ""\<close> is not rejected at all,
  although the empty string is not an environment of \<open>b\<close>: the file is created. And the
  multi-database copy never consults the supported environments:
  \<^verbatim>\<open>apply --db a --env demo\<close> acquires the resources of \<open>a\<close> and runs the engine, although
  \<open>demo\<close> is not an environment of \<open>a\<close>.
\<close>

theorem environment_validation_gaps:
  \<open>(getEnv dbs_abc ''a'' (Some ''qa'') = Inr (Some ''qa'')
     \<and> \<not> array_includes (supportedEnvironments db_a) (Some ''qa'')
     \<and> add_command name_script create_file dbs_abc ''a'' ''migration'' ''users'' (Some ''qa'') None start =
         (Inl (Error (''You cannot provide an environment when creating a migration; '' @
                      ''every migration is run in every environment for schema consistency.'')),
          start)
     \<and> makeInvalidEnvironmentError db_a (Some ''qa'') =
         Error ''Environment "qa" is not a valid environment. Valid environments are: staging, prod.'')
   \<and> (getEnv dbs_abc ''b'' (Some '''') = Inr (Some '''')
     \<and> \<not> array_includes (supportedEnvironments db_b) (Some '''')
     \<and> add_command name_script create_file dbs_abc ''b'' ''migration'' ''users'' (Some '''') None start =
         (Inr (), \<lparr>world = 1, trace = [Call ''b'' (MigratorCreate ''migration..users.js'')]\<rparr>))
   \<and> (\<not> array_includes (supportedEnvironments db_a) (Some ''demo'')
     \<and> apply_scripts_command_dbs engine_ok dbs_abc ''remaining'' None (Some ''demo'') (Some [''a''])
         start =
         (Inr (),
          \<lparr>world = 5,
           trace = [Call ''a'' CreateContext, Call ''a'' CreateStorage,
                    Call ''a'' (MigratorUp NoOptions), Call ''a'' DestroyContext,
                    Call ''a'' DestroyStorage]\<rparr>))\<close>
proof (intro conjI)
  show "getEnv dbs_abc ''a'' (Some ''qa'') = Inr (Some ''qa'')"
    by (simp add: getEnv_def dbs_abc_def)
  show "\<not> array_includes (supportedEnvironments db_a) (Some ''qa'')"
    by (simp add: array_includes_def db_a_def)
  show "add_command name_script create_file dbs_abc ''a'' ''migration'' ''users'' (Some ''qa'') None start =
         (Inl (Error (''You cannot provide an environment when creating a migration; '' @
                      ''every migration is run in every environment for schema consistency.'')),
          start)"
    by (simp add: add_command_def add_options_def add_check_def command_def dbs_abc_def
        scriptTypes_def truthy_def)
  show \<open>makeInvalidEnvironmentError db_a (Some ''qa'') =
         Error ''Environment "qa" is not a valid environment. Valid environments are: staging, prod.''\<close>
    by (simp add: makeInvalidEnvironmentError_def interpolate_def db_a_def)
  show "getEnv dbs_abc ''b'' (Some '''') = Inr (Some '''')"
    by (simp add: getEnv_def dbs_abc_def)
  show "\<not> array_includes (supportedEnvironments db_b) (Some '''')"
    by (simp add: array_includes_def db_b_def)
  show "add_command name_script create_file dbs_abc ''b'' ''migration'' ''users'' (Some '''') None start =
         (Inr (), \<lparr>world = 1, trace = [Call ''b'' (MigratorCreate ''migration..users.js'')]\<rparr>)"
    by (simp add: add_command_def add_options_def add_check_def add_handler_def command_def
      dbs_abc_def db_b_def scriptTypes_def truthy_def getEnv_def array_includes_def
      name_script_def interpolate_def create_file_def call_def tick_def start_def)
  show "\<not> array_includes (supportedEnvironments db_a) (Some ''demo'')"
    by (simp add: array_includes_def db_a_def)
  show "apply_scripts_command_dbs engine_ok dbs_abc ''remaining'' None (Some ''demo'') (Some [''a''])
         start =
         (Inr (),
          \<lparr>world = 5,
           trace = [Call ''a'' CreateContext, Call ''a'' CreateStorage,
                    Call ''a'' (MigratorUp NoOptions), Call ''a'' DestroyContext,
                    Call ''a'' DestroyStorage]\<rparr>)"
    by (simp add: apply_scripts_command_dbs_def apply_scripts_options_dbs_def
        apply_scripts_check_dbs_def truthy_def command_def apply_scripts_handler_dbs_def
        selected_def dbs_abc_def then_task_def resolved_def apply_scripts_task_def await_def
        acquire_def promise_all2_def try_finally_def migrate_def up_options_of_def call_def
        release_def db_a_def engine_ok_def start_def tick_def eval_nat_numeral)
qed

theorem invalid_environment_rejected_witness:
  "map_of dbs_abc ''a'' = Some db_a
   \<and> getEnv dbs_abc ''a'' (Some ''qa'') = Inr (Some ''qa'')
   \<and> \<not> array_includes (supportedEnvironments db_a) (Some ''qa'')
   \<and> clean_command dbs_abc ''a'' (Some ''qa'') start =
         (Inl (makeInvalidEnvironmentError db_a (Some ''qa'')), start)
   \<and> drop_command dbs_abc ''a'' (Some ''qa'') start =
         (Inl (makeInvalidEnvironmentError db_a (Some ''qa'')), start)
   \<and> create_command dbs_abc ''a'' (Some ''qa'') start =
         (Inl (makeInvalidEnvironmentError db_a (Some ''qa'')), start)
   \<and> apply_scripts_command engine_ok dbs_abc ''remaining'' None (Some ''qa'') ''a'' start =
         (Inl (makeInvalidEnvironmentError db_a (Some ''qa'')), start)
   \<and> add_command name_script create_file dbs_abc ''a'' ''seed'' ''users'' (Some ''qa'') None start =
         (Inl (makeInvalidEnvironmentError db_a (Some ''qa'')), start)"
proof -
  have 1: "map_of dbs_abc ''a'' = Some db_a" by (simp add: dbs_abc_def)
  have 2: "getEnv dbs_abc ''a'' (Some ''qa'') = Inr (Some ''qa'')" by (simp add: getEnv_def 1)
  have 3: "\<not> array_includes (supportedEnvironments db_a) (Some ''qa'')"
    by (simp add: array_includes_def db_a_def)
  have 4: "apply_scripts_options dbs_abc ''remaining'' ''a'' (Some ''qa'') = None"
    by (simp add: apply_scripts_options_def db_env_options_def dbs_abc_def)
  have 5: "(''remaining'' = ''only'' \<or> ''remaining'' = ''until'') = truthy None"
    by (simp add: truthy_def)
  have 6: "truthy (Some ''qa'')" by (simp add: truthy_def)
  have 7: "add_options dbs_abc ''a'' ''seed'' None = None"
    by (simp add: add_options_def dbs_abc_def scriptTypes_def)
  from invalid_environment_rejected [OF 1 2 3, where engine = engine_ok and target = "''remaining''"
      and nm = None and s = start and nameScript = name_script and create = create_file
      and type = "''seed''" and snm = "''users''" and format = None]
    1 2 3 4 5 6 7
  show ?thesis by simp
qed

section \<open>Properties of clean\<close>

text \<open>
  The clean handler of cli.ts for one database: a drop that throws while it runs ends the
  handler with its error; otherwise the prepare is called on the world the drop left,
  whatever the promise of the drop did, and its result is the result of the handler.
\<close>

lemma clean_task_cases:
  "clean_task env key db s =
     (case dropDbAndDisconnect db env (world s) of
        (dropped, w1) \<Rightarrow>
          (case dropped of
             Throws e \<Rightarrow> (Inl e, \<lparr>world = w1, trace = trace s @ [Call key DropDb]\<rparr>)
           | _ \<Rightarrow>
               (case awaited (prepareDbAndDisconnect db env) w1 of
                  (r, w2) \<Rightarrow>
                    (r, \<lparr>world = w2, trace = trace s @ [Call key DropDb, Call key PrepareDb]\<rparr>))))"
  by (simp add: clean_task_def await_def caught_def call_def split: prod.splits outcome.splits)

text \<open>
  Claim C5. The drop is to be attempted first and any error it throws swallowed, with the
  prepare always invoked afterwards. The handler attaches \<^verbatim>\<open>.catch\<close> to what the drop
  returns, so it swallows a rejected promise but not an error the call itself throws. For
  \<^verbatim>\<open>clean --db d --env staging\<close>, where the drop of \<open>d\<close> throws "no driver" before it
  returns a promise, the command fails with that error and the prepare is never called;
  the multi-database copy does the same.
\<close>

theorem clean_drop_throws:
  "dropDbAndDisconnect db_d (Some ''staging'') 0 = (Throws (Error ''no driver''), 1)
   \<and> clean_handler dbs_da ''d'' (Some ''staging'') start =
       (Inl (Error ''no driver''), \<lparr>world = 1, trace = [Call ''d'' DropDb]\<rparr>)
   \<and> clean_handler_dbs c_first dbs_da [''d''] start =
       (Inl (Error ''no driver''), \<lparr>world = 1, trace = [Call ''d'' DropDb]\<rparr>)"
  by (simp add: db_d_def db_a_def dbs_da_def start_def tick_def clean_handler_def getEnv_def
      clean_task_cases clean_handler_dbs_def clean_started_def selected_def caught_def
      resume_order_def)

section \<open>Properties of the multi-database handlers\<close>

lemma task_trace:
  assumes "up_options_of target nm = Some opts"
    and "apply_scripts_task engine target nm cenv env key db s = (r, s1)"
  shows "\<exists>es. trace s1 = trace s @ Call key CreateContext # es
            \<and> (\<forall>e \<in> set es. ev_db e = key \<and> ev_op e \<noteq> CreateContext)
            \<and> (r = Inr () \<longrightarrow> Call key CreateContext # es = lifecycle opts (key, db))"
proof -
  obtain c w1 where c: "createContext db cenv (world s) = (c, w1)"
    by (cases "createContext db cenv (world s)")
  obtain t w2 where t: "createStorage db cenv w1 = (t, w2)"
    by (cases "createStorage db cenv w1")
  show ?thesis
  proof (cases "\<exists>x y. c = Fulfils x \<and> t = Fulfils y")
    case True
    then obtain x y where xy: "c = Fulfils x" "t = Fulfils y" by blast
    show ?thesis
      using assms(2) unfolding task_after_acquire [OF c [unfolded xy] t [unfolded xy]]
      by (auto simp: try_finally_def migrate_def assms(1) call_def release_cases
          split: prod.splits sum.splits member.splits)
  next
    case False
    with assms(2) c t show ?thesis
      by (cases c; cases t)
        (auto simp: apply_scripts_task_def await_def acquire_cases promise_all2_def)
  qed
qed

lemma then_task_apply:
  "then_task res task s = (case res s of (Inl e, s1) \<Rightarrow> (Inl e, s1) | (Inr _, s1) \<Rightarrow> task s1)"
  by (simp add: then_task_def await_def)

lemma chain_trace:
  assumes opts: "up_options_of target nm = Some opts"
    and run: "foldl then_task resolved
            (map (\<lambda>(key, db). apply_scripts_task engine target nm cenv env key db) xs) s = (r, s')"
  shows "\<exists>k rest. k \<le> length xs
           \<and> trace s' = trace s @ concat (map (lifecycle opts) (take k xs)) @ rest
           \<and> (r = Inr () \<longrightarrow> k = length xs \<and> rest = [])
           \<and> (rest \<noteq> [] \<longrightarrow> k < length xs
                \<and> (\<exists>es. rest = Call (fst (xs ! k)) CreateContext # es
                      \<and> (\<forall>e \<in> set es. ev_db e = fst (xs ! k) \<and> ev_op e \<noteq> CreateContext)))"
  using run
proof (induction xs arbitrary: r s' rule: rev_induct)
  case Nil
  then show ?case by (simp add: resolved_def)
next
  case (snoc x xs)
  obtain key db where x: "x = (key, db)" by (cases x)
  let ?task = "\<lambda>(key, db). apply_scripts_task engine target nm cenv env key db"
  obtain r0 s0 where prev: "foldl then_task resolved (map ?task xs) s = (r0, s0)"
    by (cases "foldl then_task resolved (map ?task xs) s")
  from snoc.IH [OF prev] obtain k rest where k: "k \<le> length xs"
    and tr: "trace s0 = trace s @ concat (map (lifecycle opts) (take k xs)) @ rest"
    and ok: "r0 = Inr () \<longrightarrow> k = length xs \<and> rest = []"
    and bad: "rest \<noteq> [] \<longrightarrow> k < length xs
                \<and> (\<exists>es. rest = Call (fst (xs ! k)) CreateContext # es
                      \<and> (\<forall>e \<in> set es. ev_db e = fst (xs ! k) \<and> ev_op e \<noteq> CreateContext))"
    by blast
  from snoc.prems
  have "then_task (foldl then_task resolved (map ?task xs)) (?task x) s = (r, s')"
    by simp
  with then_task_apply [of "foldl then_task resolved (map ?task xs)" "?task x" s] prev x
  have step: "(case r0 of Inl e \<Rightarrow> (Inl e, s0)
                | Inr _ \<Rightarrow> apply_scripts_task engine target nm cenv env key db s0) = (r, s')"
    by (auto split: sum.splits)
  show ?case
  proof (cases r0)
    case (Inl e)
    with step have res: "r = Inl e" "s' = s0"
      by simp_all
    have "k \<le> length (xs @ [x])" using k by simp
    moreover have "trace s' = trace s @ concat (map (lifecycle opts) (take k (xs @ [x]))) @ rest"
      using tr k res by simp
    moreover have "r = Inr () \<longrightarrow> k = length (xs @ [x]) \<and> rest = []"
      using res by simp
    moreover have "rest \<noteq> [] \<longrightarrow> k < length (xs @ [x])
                \<and> (\<exists>es. rest = Call (fst ((xs @ [x]) ! k)) CreateContext # es
                      \<and> (\<forall>e \<in> set es. ev_db e = fst ((xs @ [x]) ! k) \<and> ev_op e \<noteq> CreateContext))"
      using bad by (auto simp: nth_append)
    ultimately show ?thesis by blast
  next
    case (Inr u)
    with ok have k': "k = length xs" and rest: "rest = []" by simp_all
    from step Inr
    have task: "apply_scripts_task engine target nm cenv env key db s0 = (r, s')"
      by simp
    from task_trace [OF opts task] obtain es
      where es: "trace s' = trace s0 @ Call key CreateContext # es"
        and own: "\<forall>e \<in> set es. ev_db e = key \<and> ev_op e \<noteq> CreateContext"
        and full: "r = Inr () \<longrightarrow> Call key CreateContext # es = lifecycle opts (key, db)"
      by blast
    show ?thesis
    proof (cases "r = Inr ()")
      case True
      with full have "Call key CreateContext # es = lifecycle opts x" by (simp add: x)
      with es tr k' rest
      have "trace s' = trace s @ concat (map (lifecycle opts) (take (Suc (length xs)) (xs @ [x]))) @ []"
        by simp
      with True show ?thesis
        by (intro exI [of _ "Suc (length xs)"] exI [of _ "[]"]) simp
    next
      case False
      from es tr k' rest
      have "trace s' = trace s @ concat (map (lifecycle opts) (take (length xs) (xs @ [x])))
              @ (Call key CreateContext # es)"
        by simp
      with False own x show ?thesis
        by (intro exI [of _ "length xs"] exI [of _ "Call key CreateContext # es"]) simp
    qed
  qed
qed

text \<open>
  Claim C3. In the multi-database apply handler, with a target among the four choices,
  the calls of a run are: for the first \<open>k\<close> selected databases, in order, the complete
  calls of their task from \<^verbatim>\<open>createContext\<close> to the teardown; then \<open>rest\<close>, calls that
  all belong to the next selected database (the one whose task failed); and nothing of any
  later database. So no call of database N+1 precedes a call of database N, teardown
  included. When the command succeeds, every selected database ran completely.
\<close>

theorem apply_sequential:
  assumes "up_options_of target nm = Some opts"
    and "sel = selected dbs (case optDbs of None \<Rightarrow> [] | Some ds \<Rightarrow> ds)"
    and "apply_scripts_handler_dbs engine dbs target nm env optDbs s = (r, s')"
  shows "\<exists>k rest. k \<le> length sel
           \<and> trace s' = trace s @ concat (map (lifecycle opts) (take k sel)) @ rest
           \<and> (r = Inr () \<longrightarrow> k = length sel \<and> rest = [])
           \<and> (\<forall>e \<in> set rest. k < length sel \<and> ev_db e = fst (sel ! k))"
proof -
  from assms(2,3)
  have "foldl then_task resolved
          (map (\<lambda>(key, db). apply_scripts_task engine target nm None env key db) sel) s = (r, s')"
    by (simp add: apply_scripts_handler_dbs_def)
  from chain_trace [OF assms(1) this] obtain k rest where "k \<le> length sel"
    and "trace s' = trace s @ concat (map (lifecycle opts) (take k sel)) @ rest"
    and "r = Inr () \<longrightarrow> k = length sel \<and> rest = []"
    and bad: "rest \<noteq> [] \<longrightarrow> k < length sel
                \<and> (\<exists>es. rest = Call (fst (sel ! k)) CreateContext # es
                      \<and> (\<forall>e \<in> set es. ev_db e = fst (sel ! k) \<and> ev_op e \<noteq> CreateContext))"
    by blast
  moreover from bad have "\<forall>e \<in> set rest. k < length sel \<and> ev_db e = fst (sel ! k)"
    by (cases rest) auto
  ultimately show ?thesis by blast
qed

theorem apply_sequential_witness:
  "up_options_of ''remaining'' None = Some NoOptions
   \<and> [(''a'', db_a), (''c'', db_c)] =
       selected dbs_abc (case Some [''c'', ''a''] of None \<Rightarrow> [] | Some ds \<Rightarrow> ds)
   \<and> apply_scripts_handler_dbs engine_ok dbs_abc ''remaining'' None (Some ''staging'')
         (Some [''c'', ''a'']) start =
       (Inl (Error ''cleanup failed''),
        \<lparr>world = 9,
         trace = [Call ''a'' CreateContext, Call ''a'' CreateStorage, Call ''a'' (MigratorUp NoOptions),
                  Call ''a'' DestroyContext, Call ''a'' DestroyStorage,
                  Call ''c'' CreateContext, Call ''c'' CreateStorage, Call ''c'' (MigratorUp NoOptions),
                  Call ''c'' DestroyContext]\<rparr>)
   \<and> (\<exists>k rest. k \<le> length [(''a'', db_a), (''c'', db_c)]
         \<and> trace \<lparr>world = 9 :: nat,
                   trace = [Call ''a'' CreateContext, Call ''a'' CreateStorage,
                            Call ''a'' (MigratorUp NoOptions),
                            Call ''a'' DestroyContext, Call ''a'' DestroyStorage,
                            Call ''c'' CreateContext, Call ''c'' CreateStorage,
                            Call ''c'' (MigratorUp NoOptions),
                            Call ''c'' DestroyContext]\<rparr> =
             trace start @ concat (map (lifecycle NoOptions) (take k [(''a'', db_a), (''c'', db_c)])) @ rest
         \<and> (Inl (Error ''cleanup failed'') = Inr () \<longrightarrow>
               k = length [(''a'', db_a), (''c'', db_c)] \<and> rest = [])
         \<and> (\<forall>e \<in> set rest. k < length [(''a'', db_a), (''c'', db_c)]
               \<and> ev_db e = fst ([(''a'', db_a), (''c'', db_c)] ! k)))"
proof -
  have 1: "up_options_of ''remaining'' None = Some NoOptions"
    by (simp add: up_options_of_def)
  have 2: "[(''a'', db_a), (''c'', db_c)] =
       selected dbs_abc (case Some [''c'', ''a''] of None \<Rightarrow> [] | Some ds \<Rightarrow> ds)"
    by (simp add: selected_def dbs_abc_def)
  have sel: "selected dbs_abc [''c'', ''a''] = [(''a'', db_a), (''c'', db_c)]"
    by (simp add: selected_def dbs_abc_def)
  have 3: "apply_scripts_handler_dbs engine_ok dbs_abc ''remaining'' None (Some ''staging'')
         (Some [''c'', ''a'']) start =
       (Inl (Error ''cleanup failed''),
        \<lparr>world = 9,
         trace = [Call ''a'' CreateContext, Call ''a'' CreateStorage, Call ''a'' (MigratorUp NoOptions),
                  Call ''a'' DestroyContext, Call ''a'' DestroyStorage,
                  Call ''c'' CreateContext, Call ''c'' CreateStorage, Call ''c'' (MigratorUp NoOptions),
                  Call ''c'' DestroyContext]\<rparr>)"
    by (simp add: apply_scripts_handler_dbs_def sel then_task_def resolved_def
        apply_scripts_task_def await_def acquire_def promise_all2_def try_finally_def migrate_def
        1 call_def release_def db_a_def db_c_def engine_ok_def start_def tick_def eval_nat_numeral)
  note 4 = apply_sequential [OF 1 2 3]
  from 1 2 3 4 show ?thesis by (intro conjI)
qed

lemma settle_all_trace:
  assumes "\<And>x s. x \<in> set xs \<Longrightarrow> trace (snd (m x s)) = trace s @ [ev x]"
  shows "trace (snd (settle_all (map m xs) s)) = trace s @ map ev xs"
  using assms
proof (induction xs arbitrary: s)
  case Nil
  then show ?case by simp
next
  case (Cons x xs)
  obtain r s1 where 1: "m x s = (r, s1)" by (cases "m x s")
  obtain rs s2 where 2: "settle_all (map m xs) s1 = (rs, s2)" by (cases "settle_all (map m xs) s1")
  from Cons.prems [of x s] 1 have "trace s1 = trace s @ [ev x]" by simp
  moreover from Cons.IH [of s1] Cons.prems 2 have "trace s2 = trace s1 @ map ev xs" by simp
  ultimately show ?case using 1 2 by simp
qed

lemma foldl_then_task:
  "foldl then_task acc ts s =
     (case acc s of (Inl e, s1) \<Rightarrow> (Inl e, s1) | (Inr _, s1) \<Rightarrow> foldl then_task resolved ts s1)"
proof (induction ts arbitrary: acc s)
  case Nil
  show ?case by (cases "acc s") (auto simp: resolved_def split: sum.splits)
next
  case (Cons t ts)
  have "foldl then_task acc (t # ts) s = foldl then_task (then_task acc t) ts s" by simp
  also have "\<dots> = (case then_task acc t s of (Inl e, s1) \<Rightarrow> (Inl e, s1)
                    | (Inr _, s1) \<Rightarrow> foldl then_task resolved ts s1)"
    by (rule Cons.IH)
  finally have lhs: "foldl then_task acc (t # ts) s =
      (case then_task acc t s of (Inl e, s1) \<Rightarrow> (Inl e, s1)
       | (Inr _, s1) \<Rightarrow> foldl then_task resolved ts s1)" .
  have rhs: "foldl then_task resolved (t # ts) s1 =
      (case t s1 of (Inl e, s2) \<Rightarrow> (Inl e, s2) | (Inr _, s2) \<Rightarrow> foldl then_task resolved ts s2)" for s1
  proof -
    have "foldl then_task resolved (t # ts) s1 = foldl then_task (then_task resolved t) ts s1" by simp
    also have "\<dots> = (case then_task resolved t s1 of (Inl e, s2) \<Rightarrow> (Inl e, s2)
                    | (Inr _, s2) \<Rightarrow> foldl then_task resolved ts s2)"
      by (rule Cons.IH)
    also have "then_task resolved t s1 = t s1"
      unfolding then_task_apply [of resolved t s1] by (simp add: resolved_def)
    finally show ?thesis .
  qed
  have step: "then_task acc t s =
      (case acc s of (Inl e, s1) \<Rightarrow> (Inl e, s1) | (Inr _, s1) \<Rightarrow> t s1)"
    by (rule then_task_apply)
  show ?case
    unfolding lhs step rhs by (simp split: prod.splits sum.splits)
qed

lemma selected_Cons:
  "selected ((key, db) # dbs) optDbs =
     (if key \<in> set optDbs then (key, db) # selected dbs optDbs else selected dbs optDbs)"
  by (simp add: selected_def)

lemma selected_cong: "set optDbs = set optDbs' \<Longrightarrow> selected dbs optDbs = selected dbs optDbs'"
  by (simp add: selected_def)

lemma apply_walk:
  "apply_scripts_handler_dbs engine ((key, db) # dbs) target nm env (Some optDbs) s =
     (if key \<in> set optDbs
      then (case apply_scripts_task engine target nm None env key db s of
              (Inl e, s1) \<Rightarrow> (Inl e, s1)
            | (Inr _, s1) \<Rightarrow> apply_scripts_handler_dbs engine dbs target nm env (Some optDbs) s1)
      else apply_scripts_handler_dbs engine dbs target nm env (Some optDbs) s)"
proof (cases "key \<in> set optDbs")
  case False
  then show ?thesis by (simp add: apply_scripts_handler_dbs_def selected_Cons)
next
  case True
  let ?task = "\<lambda>(key, db). apply_scripts_task engine target nm None env key db"
  have tail: "apply_scripts_handler_dbs engine dbs target nm env (Some optDbs) =
          foldl then_task resolved (map ?task (selected dbs optDbs))"
    by (simp add: apply_scripts_handler_dbs_def)
  have "apply_scripts_handler_dbs engine ((key, db) # dbs) target nm env (Some optDbs) s =
          foldl then_task (then_task resolved (?task (key, db))) (map ?task (selected dbs optDbs)) s"
    using True by (simp add: apply_scripts_handler_dbs_def selected_Cons)
  also have "\<dots> = (case then_task resolved (?task (key, db)) s of (Inl e, s1) \<Rightarrow> (Inl e, s1)
                    | (Inr _, s1) \<Rightarrow> foldl then_task resolved (map ?task (selected dbs optDbs)) s1)"
    by (rule foldl_then_task)
  also have "then_task resolved (?task (key, db)) s = apply_scripts_task engine target nm None env key db s"
    unfolding then_task_apply [of resolved "?task (key, db)" s] by (simp add: resolved_def)
  finally show ?thesis unfolding tail using True by simp
qed

lemma promise_all_map_Nil: "promise_all_map [] f s = (Inr (), s)"
  by (simp add: promise_all_map_def)

lemma promise_all_map_snd:
  "snd (promise_all_map ((key, db) # entries) f s) =
     (case f key db s of
        (oc, s1) \<Rightarrow> (case oc of Throws e \<Rightarrow> s1 | _ \<Rightarrow> snd (promise_all_map entries f s1)))"
  by (simp add: promise_all_map_def split: prod.splits outcome.splits sum.splits)

lemma promise_all_map_isl:
  "isl (fst (promise_all_map ((key, db) # entries) f s)) =
     (case f key db s of
        (oc, s1) \<Rightarrow> (case oc of Fulfils _ \<Rightarrow> isl (fst (promise_all_map entries f s1)) | _ \<Rightarrow> True))"
  by (simp add: promise_all_map_def split: prod.splits outcome.splits sum.splits)

lemma clean_started_Cons:
  "clean_started ((key, db) # dbs) optDbs s =
     (if key \<in> set optDbs
      then (case dropDbAndDisconnect db None (world s) of
              (oc, w) \<Rightarrow>
                (case clean_started dbs optDbs \<lparr>world = w, trace = trace s @ [Call key DropDb]\<rparr> of
                   (rs, s') \<Rightarrow> ((case oc of Throws e \<Rightarrow> Inl e | _ \<Rightarrow> Inr ()) # rs, s')))
      else clean_started dbs optDbs s)"
  by (simp add: clean_started_def selected_Cons caught_def split: prod.splits)

lemma clean_prepares_trace:
  "\<exists>order. set order =
               set [entry. (Inr _, entry) \<leftarrow> zip (fst (clean_started dbs optDbs s)) (selected dbs optDbs)]
     \<and> length order =
         length [entry. (Inr _, entry) \<leftarrow> zip (fst (clean_started dbs optDbs s)) (selected dbs optDbs)]
     \<and> trace (snd (clean_handler_dbs settles dbs optDbs s)) =
         trace (snd (clean_started dbs optDbs s)) @ map (\<lambda>(key, _). Call key PrepareDb) order"
proof -
  obtain started s1 where 1: "clean_started dbs optDbs s = (started, s1)"
    by (cases "clean_started dbs optDbs s")
  let ?pending = "[entry. (Inr _, entry) \<leftarrow> zip started (selected dbs optDbs)]"
  let ?order = "resume_order settles ?pending"
  let ?prepares = "map (\<lambda>(key, db). call (Call key PrepareDb) (awaited (prepareDbAndDisconnect db None)))
             ?order"
  obtain finished s2 where 2: "settle_all ?prepares s1 = (finished, s2)"
    by (cases "settle_all ?prepares s1")
  have "trace (snd (settle_all ?prepares s1)) =
        trace s1 @ map (\<lambda>(key, _). Call key PrepareDb) ?order"
    by (rule settle_all_trace) (auto simp: call_def split: prod.splits)
  with 2 have "trace s2 = trace s1 @ map (\<lambda>(key, _). Call key PrepareDb) ?order"
    by simp
  with 1 2 have 3: "trace (snd (clean_handler_dbs settles dbs optDbs s)) =
         trace (snd (clean_started dbs optDbs s)) @ map (\<lambda>(key, _). Call key PrepareDb) ?order"
    by (simp add: clean_handler_dbs_def)
  have 4: "set ?order = set ?pending" "length ?order = length ?pending"
    by (simp_all add: resume_order_def)
  from 1 3 4 show ?thesis
    by (intro exI [of _ ?order]) simp
qed

text \<open>
  Claim C10. Each multi-database handler depends on the \<^verbatim>\<open>--db\<close> flags only through the
  set of names given: reordering or repeating them changes nothing. Each handler walks
  the configuration in the order of its entries and takes an entry when its key was named.
  apply runs the task of the entry to its end and goes on to the next entry only if it
  succeeded. drop and create call the callback of the entry and go on unless the call
  threw; they fail when a call did not fulfil. clean calls the drop of every named entry
  in that order before \<^verbatim>\<open>map\<close> returns; the prepares follow, one for every entry whose
  drop did not throw, in the order in which the drops settle, which the flags do not
  influence either.
\<close>

theorem config_order:
  assumes "set optDbs = set optDbs'"
  shows "apply_scripts_handler_dbs engine dbs target nm env (Some optDbs) =
           apply_scripts_handler_dbs engine dbs target nm env (Some optDbs')
       \<and> clean_handler_dbs settles dbs optDbs = clean_handler_dbs settles dbs optDbs'
       \<and> drop_handler_dbs dbs optDbs = drop_handler_dbs dbs optDbs'
       \<and> create_handler_dbs dbs optDbs = create_handler_dbs dbs optDbs'
       \<and> apply_scripts_handler_dbs engine [] target nm env (Some optDbs) s = (Inr (), s)
       \<and> apply_scripts_handler_dbs engine ((key, db) # dbs) target nm env (Some optDbs) s =
           (if key \<in> set optDbs
            then (case apply_scripts_task engine target nm None env key db s of
                    (Inl e, s1) \<Rightarrow> (Inl e, s1)
                  | (Inr _, s1) \<Rightarrow>
                      apply_scripts_handler_dbs engine dbs target nm env (Some optDbs) s1)
            else apply_scripts_handler_dbs engine dbs target nm env (Some optDbs) s)
       \<and> drop_handler_dbs [] optDbs s = (Inr (), s)
       \<and> snd (drop_handler_dbs ((key, db) # dbs) optDbs s) =
           (if key \<in> set optDbs
            then (case dropDbAndDisconnect db None (world s) of
                    (oc, w) \<Rightarrow>
                      (case oc of
                         Throws e \<Rightarrow> \<lparr>world = w, trace = trace s @ [Call key DropDb]\<rparr>
                       | _ \<Rightarrow> snd (drop_handler_dbs dbs optDbs
                                    \<lparr>world = w, trace = trace s @ [Call key DropDb]\<rparr>)))
            else snd (drop_handler_dbs dbs optDbs s))
       \<and> isl (fst (drop_handler_dbs ((key, db) # dbs) optDbs s)) =
           (if key \<in> set optDbs
            then (case dropDbAndDisconnect db None (world s) of
                    (oc, w) \<Rightarrow>
                      (case oc of
                         Fulfils _ \<Rightarrow> isl (fst (drop_handler_dbs dbs optDbs
                                       \<lparr>world = w, trace = trace s @ [Call key DropDb]\<rparr>))
                       | _ \<Rightarrow> True))
            else isl (fst (drop_handler_dbs dbs optDbs s)))
       \<and> create_handler_dbs [] optDbs s = (Inr (), s)
       \<and> snd (create_handler_dbs ((key, db) # dbs) optDbs s) =
           (if key \<in> set optDbs
            then (case prepareDbAndDisconnect db None (world s) of
                    (oc, w) \<Rightarrow>
                      (case oc of
                         Throws e \<Rightarrow> \<lparr>world = w, trace = trace s @ [Call key PrepareDb]\<rparr>
                       | _ \<Rightarrow> snd (create_handler_dbs dbs optDbs
                                    \<lparr>world = w, trace = trace s @ [Call key PrepareDb]\<rparr>)))
            else snd (create_handler_dbs dbs optDbs s))
       \<and> isl (fst (create_handler_dbs ((key, db) # dbs) optDbs s)) =
           (if key \<in> set optDbs
            then (case prepareDbAndDisconnect db None (world s) of
                    (oc, w) \<Rightarrow>
                      (case oc of
                         Fulfils _ \<Rightarrow> isl (fst (create_handler_dbs dbs optDbs
                                       \<lparr>world = w, trace = trace s @ [Call key PrepareDb]\<rparr>))
                       | _ \<Rightarrow> True))
            else isl (fst (create_handler_dbs dbs optDbs s)))
       \<and> clean_started [] optDbs s = ([], s)
       \<and> clean_started ((key, db) # dbs) optDbs s =
           (if key \<in> set optDbs
            then (case dropDbAndDisconnect db None (world s) of
                    (oc, w) \<Rightarrow>
                      (case clean_started dbs optDbs
                              \<lparr>world = w, trace = trace s @ [Call key DropDb]\<rparr> of
                         (rs, s') \<Rightarrow> ((case oc of Throws e \<Rightarrow> Inl e | _ \<Rightarrow> Inr ()) # rs, s')))
            else clean_started dbs optDbs s)
       \<and> (\<exists>order.
             set order =
               set [entry. (Inr _, entry) \<leftarrow> zip (fst (clean_started dbs optDbs s)) (selected dbs optDbs)]
           \<and> length order =
               length [entry. (Inr _, entry) \<leftarrow> zip (fst (clean_started dbs optDbs s)) (selected dbs optDbs)]
           \<and> trace (snd (clean_handler_dbs settles dbs optDbs s)) =
               trace (snd (clean_started dbs optDbs s)) @ map (\<lambda>(key, _). Call key PrepareDb) order)"
proof -
  have sel: "selected dbs optDbs = selected dbs optDbs'"
    using assms by (rule selected_cong)
  have 1: "apply_scripts_handler_dbs engine dbs target nm env (Some optDbs) =
           apply_scripts_handler_dbs engine dbs target nm env (Some optDbs')"
    by (simp add: apply_scripts_handler_dbs_def sel)
  have 2: "clean_handler_dbs settles dbs optDbs = clean_handler_dbs settles dbs optDbs'"
    by (rule ext) (simp add: clean_handler_dbs_def clean_started_def sel)
  have 3: "drop_handler_dbs dbs optDbs = drop_handler_dbs dbs optDbs'"
    by (simp add: drop_handler_dbs_def sel)
  have 4: "create_handler_dbs dbs optDbs = create_handler_dbs dbs optDbs'"
    by (simp add: create_handler_dbs_def sel)
  have 5: "apply_scripts_handler_dbs engine [] target nm env (Some optDbs) s = (Inr (), s)"
    by (simp add: apply_scripts_handler_dbs_def selected_def resolved_def)
  note 6 = apply_walk [of engine key db dbs target nm env optDbs s]
  have 7: "drop_handler_dbs [] optDbs s = (Inr (), s)"
    by (simp add: drop_handler_dbs_def selected_def promise_all_map_Nil)
  have 8: "snd (drop_handler_dbs ((key, db) # dbs) optDbs s) =
           (if key \<in> set optDbs
            then (case dropDbAndDisconnect db None (world s) of
                    (oc, w) \<Rightarrow>
                      (case oc of
                         Throws e \<Rightarrow> \<lparr>world = w, trace = trace s @ [Call key DropDb]\<rparr>
                       | _ \<Rightarrow> snd (drop_handler_dbs dbs optDbs
                                    \<lparr>world = w, trace = trace s @ [Call key DropDb]\<rparr>)))
            else snd (drop_handler_dbs dbs optDbs s))"
    by (simp add: drop_handler_dbs_def selected_Cons promise_all_map_snd invoke_def
        split: prod.splits outcome.splits)
  have 9: "isl (fst (drop_handler_dbs ((key, db) # dbs) optDbs s)) =
           (if key \<in> set optDbs
            then (case dropDbAndDisconnect db None (world s) of
                    (oc, w) \<Rightarrow>
                      (case oc of
                         Fulfils _ \<Rightarrow> isl (fst (drop_handler_dbs dbs optDbs
                                       \<lparr>world = w, trace = trace s @ [Call key DropDb]\<rparr>))
                       | _ \<Rightarrow> True))
            else isl (fst (drop_handler_dbs dbs optDbs s)))"
    by (simp add: drop_handler_dbs_def selected_Cons promise_all_map_isl invoke_def
        split: prod.splits outcome.splits)
  have 10: "create_handler_dbs [] optDbs s = (Inr (), s)"
    by (simp add: create_handler_dbs_def selected_def promise_all_map_Nil)
  have 11: "snd (create_handler_dbs ((key, db) # dbs) optDbs s) =
           (if key \<in> set optDbs
            then (case prepareDbAndDisconnect db None (world s) of
                    (oc, w) \<Rightarrow>
                      (case oc of
                         Throws e \<Rightarrow> \<lparr>world = w, trace = trace s @ [Call key PrepareDb]\<rparr>
                       | _ \<Rightarrow> snd (create_handler_dbs dbs optDbs
                                    \<lparr>world = w, trace = trace s @ [Call key PrepareDb]\<rparr>)))
            else snd (create_handler_dbs dbs optDbs s))"
    by (simp add: create_handler_dbs_def selected_Cons promise_all_map_snd invoke_def
        split: prod.splits outcome.splits)
  have 12: "isl (fst (create_handler_dbs ((key, db) # dbs) optDbs s)) =
           (if key \<in> set optDbs
            then (case prepareDbAndDisconnect db None (world s) of
                    (oc, w) \<Rightarrow>
                      (case oc of
                         Fulfils _ \<Rightarrow> isl (fst (create_handler_dbs dbs optDbs
                                       \<lparr>world = w, trace = trace s @ [Call key PrepareDb]\<rparr>))
                       | _ \<Rightarrow> True))
            else isl (fst (create_handler_dbs dbs optDbs s)))"
    by (simp add: create_handler_dbs_def selected_Cons promise_all_map_isl invoke_def
        split: prod.splits outcome.splits)
  have 13: "clean_started [] optDbs s = ([], s)"
    by (simp add: clean_started_def selected_def)
  note 14 = clean_started_Cons [of key db dbs optDbs s]
  note 15 = clean_prepares_trace [where settles = settles and dbs = dbs and optDbs = optDbs and s = s]
  from 1 2 3 4 5 6 7 8 9 10 11 12 13 14 15 show ?thesis by (intro conjI)
qed

theorem config_order_witness:
  "set [''c'', ''a''] = set [''a'', ''c'', ''a'']
   \<and> apply_scripts_handler_dbs engine_ok dbs_abc ''remaining'' None (Some ''staging'') (Some [''c'', ''a'']) =
       apply_scripts_handler_dbs engine_ok dbs_abc ''remaining'' None (Some ''staging'')
         (Some [''a'', ''c'', ''a''])
   \<and> drop_handler_dbs dbs_abc [''c'', ''a''] = drop_handler_dbs dbs_abc [''a'', ''c'', ''a'']
   \<and> drop_handler_dbs dbs_abc [''c'', ''a''] start =
       (Inr (), \<lparr>world = 2, trace = [Call ''a'' DropDb, Call ''c'' DropDb]\<rparr>)
   \<and> clean_handler_dbs c_first dbs_abc [''c'', ''a''] start =
       (Inr (), \<lparr>world = 4,
                 trace = [Call ''a'' DropDb, Call ''c'' DropDb,
                          Call ''c'' PrepareDb, Call ''a'' PrepareDb]\<rparr>)"
proof -
  have 1: "set [''c'', ''a''] = set [''a'', ''c'', ''a'']" by auto
  note th = config_order [OF 1, where engine = engine_ok and dbs = dbs_abc
      and target = "''remaining''" and nm = None and env = "Some ''staging''"]
  from th have 2: "apply_scripts_handler_dbs engine_ok dbs_abc ''remaining'' None (Some ''staging'')
         (Some [''c'', ''a'']) =
       apply_scripts_handler_dbs engine_ok dbs_abc ''remaining'' None (Some ''staging'')
         (Some [''a'', ''c'', ''a''])"
    by (rule conjunct1)
  from th have 3: "drop_handler_dbs dbs_abc [''c'', ''a''] = drop_handler_dbs dbs_abc [''a'', ''c'', ''a'']"
    by blast
  have 4: "drop_handler_dbs dbs_abc [''c'', ''a''] start =
       (Inr (), \<lparr>world = 2, trace = [Call ''a'' DropDb, Call ''c'' DropDb]\<rparr>)"
    by (simp add: drop_handler_dbs_def promise_all_map_def selected_def dbs_abc_def invoke_def
        db_a_def db_c_def start_def tick_def)
  have 5: "clean_handler_dbs c_first dbs_abc [''c'', ''a''] start =
       (Inr (), \<lparr>world = 4,
                 trace = [Call ''a'' DropDb, Call ''c'' DropDb,
                          Call ''c'' PrepareDb, Call ''a'' PrepareDb]\<rparr>)"
    by (simp add: clean_handler_dbs_def clean_started_def selected_def dbs_abc_def caught_def
        resume_order_def c_first_def call_def awaited_def db_a_def db_c_def start_def tick_def
        eval_nat_numeral)
  from 1 2 3 4 5 show ?thesis by (intro conjI)
qed

end
